theory Spec2Isabelle
  imports Main
begin

section \<open>Python strings\<close>

text \<open>
  A Python \<open>str\<close> is a sequence of Unicode code points, so a string is a list of
  natural numbers (the texts of this program are Cyrillic, which does not fit the
  8-bit characters of HOL). The string literals of the source are written as
  their code points, with a transliteration next to them.

  \<open>str.lower\<close> and \<open>str.capitalize\<close> are the built-ins of Python on the
  blocks Basic Latin, Latin-1 and Cyrillic (U+0400 to U+045F), the alphabets of
  the dictionaries: a code point outside these blocks is left as it is, where
  Python would change it (U+212A, the Kelvin sign, to "k", for one). In these
  blocks the case mappings are one code point to one code point, except for
  U+00DF (its capital is two letters), which is left as it is.
\<close>

type_synonym pystr = "nat list"

definition lower_cp :: "nat \<Rightarrow> nat" where
  "lower_cp c =
     (if (65 \<le> c \<and> c \<le> 90) \<or> (192 \<le> c \<and> c \<le> 222 \<and> c \<noteq> 215) \<or> (1040 \<le> c \<and> c \<le> 1071)
      then c + 32
      else if 1024 \<le> c \<and> c \<le> 1039 then c + 80
      else c)"

definition upper_cp :: "nat \<Rightarrow> nat" where
  "upper_cp c =
     (if (97 \<le> c \<and> c \<le> 122) \<or> (224 \<le> c \<and> c \<le> 254 \<and> c \<noteq> 247) \<or> (1072 \<le> c \<and> c \<le> 1103)
      then c - 32
      else if 1104 \<le> c \<and> c \<le> 1119 then c - 80
      else if c = 255 then 376
      else if c = 181 then 924
      else c)"

definition lower :: "pystr \<Rightarrow> pystr" where
  "lower s = map lower_cp s"

definition capitalize :: "pystr \<Rightarrow> pystr" where
  "capitalize s = (case s of [] \<Rightarrow> [] | c # cs \<Rightarrow> upper_cp c # lower cs)"

text \<open>
  \<open>str.isdigit\<close> on one character: the 788 code points of Unicode 14.0 that are
  decimal digits or other digits (superscripts, circled digits), as ranges.
\<close>

definition digit_ranges :: "(nat \<times> nat) list" where
  "digit_ranges =
     [(48, 57), (178, 179), (185, 185), (1632, 1641), (1776, 1785), (1984, 1993), (2406, 2415),
      (2534, 2543), (2662, 2671), (2790, 2799), (2918, 2927), (3046, 3055), (3174, 3183),
      (3302, 3311), (3430, 3439), (3558, 3567), (3664, 3673), (3792, 3801), (3872, 3881),
      (4160, 4169), (4240, 4249), (4969, 4977), (6112, 6121), (6160, 6169), (6470, 6479),
      (6608, 6618), (6784, 6793), (6800, 6809), (6992, 7001), (7088, 7097), (7232, 7241),
      (7248, 7257), (8304, 8304), (8308, 8313), (8320, 8329), (9312, 9320), (9332, 9340),
      (9352, 9360), (9450, 9450), (9461, 9469), (9471, 9471), (10102, 10110), (10112, 10120),
      (10122, 10130), (42528, 42537), (43216, 43225), (43264, 43273), (43472, 43481),
      (43504, 43513), (43600, 43609), (44016, 44025), (65296, 65305), (66720, 66729),
      (68160, 68163), (68912, 68921), (69216, 69224), (69714, 69722), (69734, 69743),
      (69872, 69881), (69942, 69951), (70096, 70105), (70384, 70393), (70736, 70745),
      (70864, 70873), (71248, 71257), (71360, 71369), (71472, 71481), (71904, 71913),
      (72016, 72025), (72784, 72793), (73040, 73049), (73120, 73129), (92768, 92777),
      (92864, 92873), (93008, 93017), (120782, 120831), (123200, 123209), (123632, 123641),
      (125264, 125273), (127232, 127242), (130032, 130041)]"

definition isdigit :: "nat \<Rightarrow> bool" where
  "isdigit c = list_ex (\<lambda>(lo, hi). lo \<le> c \<and> c \<le> hi) digit_ranges"

text \<open>\<open>''.join(filter(str.isdigit, s))\<close>: the digits of a string, in order.\<close>

definition digits_of :: "pystr \<Rightarrow> pystr" where
  "digits_of s = filter isdigit s"

text \<open>\<open>any(c.isdigit() for c in s)\<close>\<close>

definition has_digit :: "pystr \<Rightarrow> bool" where
  "has_digit s = list_ex isdigit s"

text \<open>\<open>w in t\<close> on strings: \<open>w\<close> occurs in \<open>t\<close> as a contiguous substring.\<close>

fun starts_with :: "'a list \<Rightarrow> 'a list \<Rightarrow> bool" where
  "starts_with [] t = True"
| "starts_with (x # xs) [] = False"
| "starts_with (x # xs) (y # ys) = (x = y \<and> starts_with xs ys)"

fun is_substr :: "'a list \<Rightarrow> 'a list \<Rightarrow> bool" where
  "is_substr w [] = (w = [])"
| "is_substr w (c # t) = (starts_with w (c # t) \<or> is_substr w t)"

text \<open>Python's truth value of a string, and of \<open>None\<close> or a string.\<close>

definition truthy :: "pystr \<Rightarrow> bool" where
  "truthy s = (s \<noteq> [])"

definition truthy_opt :: "pystr option \<Rightarrow> bool" where
  "truthy_opt r = (case r of None \<Rightarrow> False | Some s \<Rightarrow> s \<noteq> [])"

subsection \<open>String literals\<close>

text \<open>
  The string literals of the source, as code points (transliterated):
  \<^item> \<open>s_srochno\<close> is "srochno"
  \<^item> \<open>s_avariya\<close> is "avariya"
  \<^item> \<open>s_ostanovka\<close> is "ostanovka"
  \<^item> \<open>s_kritichn\<close> is "kritichn"
  \<^item> \<open>s_planovyj\<close> is "planovyj"
  \<^item> \<open>s_ne_srochno\<close> is "ne srochno"
  \<^item> \<open>s_profilaktika\<close> is "profilaktika"
  \<^item> \<open>s_vysokaya\<close> is "vysokaya"
  \<^item> \<open>s_nizkaya\<close> is "nizkaya"
  \<^item> \<open>s_Vysokaya\<close> is "Vysokaya"
  \<^item> \<open>s_Nizkaya\<close> is "Nizkaya"
  \<^item> \<open>s_Srednyaya\<close> is "Srednyaya"
  \<^item> \<open>s_ostanovilsya\<close> is "ostanovilsya"
  \<^item> \<open>s_srochnyj\<close> is "srochnyj"
  \<^item> \<open>s_neznachitelnyj\<close> is "neznachitel'nyj"
  \<^item> \<open>s_Ne_ukazany\<close> is "Ne ukazany"
  \<^item> \<open>s_Simptomy_ne_opisany\<close> is "Simptomy ne opisany"
  \<^item> \<open>s_Neizvestnoe_oborudovanie\<close> is "Neizvestnoe oborudovanie"
  \<^item> \<open>s_Ne_ukazan\<close> is "Ne ukazan"
  \<^item> \<open>s_slomatsya\<close> is "slomat'sya"
  \<^item> \<open>s_ostanovitsya\<close> is "ostanovit'sya"
  \<^item> \<open>s_peregretsya\<close> is "peregret'sya"
  \<^item> \<open>s_vibrirovat\<close> is "vibrirovat'"
  \<^item> \<open>s_vibratsiya\<close> is "vibratsiya"
  \<^item> \<open>s_shumet\<close> is "shumet'"
  \<^item> \<open>s_shum\<close> is "shum"
  \<^item> \<open>s_peregrevatsya\<close> is "peregrevat'sya"
  \<^item> \<open>s_peregrev\<close> is "peregrev"
  \<^item> \<open>s_tech\<close> is "tech'"
  \<^item> \<open>s_zavisat\<close> is "zavisat'"
  \<^item> \<open>s_zavisanie\<close> is "zavisanie"
  \<^item> \<open>s_ostanavlivatsya\<close> is "ostanavlivat'sya"
  \<^item> \<open>s_vibriruet\<close> is "vibriruet"
  \<^item> \<open>s_drozhit\<close> is "drozhit"
  \<^item> \<open>s_tryasetsya\<close> is "tryasetsya"
  \<^item> \<open>s_shumit\<close> is "shumit"
  \<^item> \<open>s_gudit\<close> is "gudit"
  \<^item> \<open>s_skripit\<close> is "skripit"
  \<^item> \<open>s_peregrevaetsya\<close> is "peregrevaetsya"
  \<^item> \<open>s_nagrevaetsya\<close> is "nagrevaetsya"
  \<^item> \<open>s_stanok\<close> is "stanok"
  \<^item> \<open>s_stanok_5\<close> is "stanok 5"
  \<^item> \<open>s_5\<close> is "5"
  \<^item> \<open>s_shpindel\<close> is "shpindel'"
  \<^item> \<open>s_stanok_vibriruet\<close> is "stanok vibriruet"
  \<^item> \<open>s_Stanok\<close> is "Stanok"
\<close>

abbreviation s_srochno :: pystr where
  "s_srochno \<equiv> [1089, 1088, 1086, 1095, 1085, 1086]"

abbreviation s_avariya :: pystr where
  "s_avariya \<equiv> [1072, 1074, 1072, 1088, 1080, 1103]"

abbreviation s_ostanovka :: pystr where
  "s_ostanovka \<equiv> [1086, 1089, 1090, 1072, 1085, 1086, 1074, 1082, 1072]"

abbreviation s_kritichn :: pystr where
  "s_kritichn \<equiv> [1082, 1088, 1080, 1090, 1080, 1095, 1085]"

abbreviation s_planovyj :: pystr where
  "s_planovyj \<equiv> [1087, 1083, 1072, 1085, 1086, 1074, 1099, 1081]"

abbreviation s_ne_srochno :: pystr where
  "s_ne_srochno \<equiv> [1085, 1077, 32, 1089, 1088, 1086, 1095, 1085, 1086]"

abbreviation s_profilaktika :: pystr where
  "s_profilaktika \<equiv> [1087, 1088, 1086, 1092, 1080, 1083, 1072, 1082, 1090, 1080, 1082, 1072]"

abbreviation s_vysokaya :: pystr where
  "s_vysokaya \<equiv> [1074, 1099, 1089, 1086, 1082, 1072, 1103]"

abbreviation s_nizkaya :: pystr where
  "s_nizkaya \<equiv> [1085, 1080, 1079, 1082, 1072, 1103]"

abbreviation s_Vysokaya :: pystr where
  "s_Vysokaya \<equiv> [1042, 1099, 1089, 1086, 1082, 1072, 1103]"

abbreviation s_Nizkaya :: pystr where
  "s_Nizkaya \<equiv> [1053, 1080, 1079, 1082, 1072, 1103]"

abbreviation s_Srednyaya :: pystr where
  "s_Srednyaya \<equiv> [1057, 1088, 1077, 1076, 1085, 1103, 1103]"

abbreviation s_ostanovilsya :: pystr where
  "s_ostanovilsya \<equiv> [1086, 1089, 1090, 1072, 1085, 1086, 1074, 1080, 1083, 1089, 1103]"

abbreviation s_srochnyj :: pystr where
  "s_srochnyj \<equiv> [1089, 1088, 1086, 1095, 1085, 1099, 1081]"

abbreviation s_neznachitelnyj :: pystr where
  "s_neznachitelnyj \<equiv> [1085, 1077, 1079, 1085, 1072, 1095, 1080, 1090, 1077, 1083, 1100, 1085, 1099, 1081]"

abbreviation s_Ne_ukazany :: pystr where
  "s_Ne_ukazany \<equiv> [1053, 1077, 32, 1091, 1082, 1072, 1079, 1072, 1085, 1099]"

abbreviation s_Simptomy_ne_opisany :: pystr where
  "s_Simptomy_ne_opisany \<equiv> [1057, 1080, 1084, 1087, 1090, 1086, 1084, 1099, 32, 1085, 1077, 32, 1086, 1087, 1080, 1089, 1072, 1085, 1099]"

abbreviation s_Neizvestnoe_oborudovanie :: pystr where
  "s_Neizvestnoe_oborudovanie \<equiv> [1053, 1077, 1080, 1079, 1074, 1077, 1089, 1090, 1085, 1086, 1077, 32, 1086, 1073, 1086, 1088, 1091, 1076, 1086, 1074, 1072, 1085, 1080, 1077]"


abbreviation s_slomatsya :: pystr where
  "s_slomatsya \<equiv> [1089, 1083, 1086, 1084, 1072, 1090, 1100, 1089, 1103]"

abbreviation s_ostanovitsya :: pystr where
  "s_ostanovitsya \<equiv> [1086, 1089, 1090, 1072, 1085, 1086, 1074, 1080, 1090, 1100, 1089, 1103]"

abbreviation s_peregretsya :: pystr where
  "s_peregretsya \<equiv> [1087, 1077, 1088, 1077, 1075, 1088, 1077, 1090, 1100, 1089, 1103]"

abbreviation s_vibrirovat :: pystr where
  "s_vibrirovat \<equiv> [1074, 1080, 1073, 1088, 1080, 1088, 1086, 1074, 1072, 1090, 1100]"

abbreviation s_vibratsiya :: pystr where
  "s_vibratsiya \<equiv> [1074, 1080, 1073, 1088, 1072, 1094, 1080, 1103]"

abbreviation s_shumet :: pystr where
  "s_shumet \<equiv> [1096, 1091, 1084, 1077, 1090, 1100]"

abbreviation s_shum :: pystr where
  "s_shum \<equiv> [1096, 1091, 1084]"

abbreviation s_peregrevatsya :: pystr where
  "s_peregrevatsya \<equiv> [1087, 1077, 1088, 1077, 1075, 1088, 1077, 1074, 1072, 1090, 1100, 1089, 1103]"

abbreviation s_peregrev :: pystr where
  "s_peregrev \<equiv> [1087, 1077, 1088, 1077, 1075, 1088, 1077, 1074]"

abbreviation s_tech :: pystr where
  "s_tech \<equiv> [1090, 1077, 1095, 1100]"

abbreviation s_zavisat :: pystr where
  "s_zavisat \<equiv> [1079, 1072, 1074, 1080, 1089, 1072, 1090, 1100]"

abbreviation s_zavisanie :: pystr where
  "s_zavisanie \<equiv> [1079, 1072, 1074, 1080, 1089, 1072, 1085, 1080, 1077]"

abbreviation s_ostanavlivatsya :: pystr where
  "s_ostanavlivatsya \<equiv> [1086, 1089, 1090, 1072, 1085, 1072, 1074, 1083, 1080, 1074, 1072, 1090, 1100, 1089, 1103]"

abbreviation s_vibriruet :: pystr where
  "s_vibriruet \<equiv> [1074, 1080, 1073, 1088, 1080, 1088, 1091, 1077, 1090]"

abbreviation s_drozhit :: pystr where
  "s_drozhit \<equiv> [1076, 1088, 1086, 1078, 1080, 1090]"

abbreviation s_tryasetsya :: pystr where
  "s_tryasetsya \<equiv> [1090, 1088, 1103, 1089, 1077, 1090, 1089, 1103]"

abbreviation s_shumit :: pystr where
  "s_shumit \<equiv> [1096, 1091, 1084, 1080, 1090]"

abbreviation s_gudit :: pystr where
  "s_gudit \<equiv> [1075, 1091, 1076, 1080, 1090]"

abbreviation s_skripit :: pystr where
  "s_skripit \<equiv> [1089, 1082, 1088, 1080, 1087, 1080, 1090]"

abbreviation s_peregrevaetsya :: pystr where
  "s_peregrevaetsya \<equiv> [1087, 1077, 1088, 1077, 1075, 1088, 1077, 1074, 1072, 1077, 1090, 1089, 1103]"

abbreviation s_nagrevaetsya :: pystr where
  "s_nagrevaetsya \<equiv> [1085, 1072, 1075, 1088, 1077, 1074, 1072, 1077, 1090, 1089, 1103]"

abbreviation s_stanok :: pystr where
  "s_stanok \<equiv> [1089, 1090, 1072, 1085, 1086, 1082]"

abbreviation s_stanok_5 :: pystr where
  "s_stanok_5 \<equiv> [1089, 1090, 1072, 1085, 1086, 1082, 32, 53]"

abbreviation s_5 :: pystr where
  "s_5 \<equiv> [53]"

abbreviation s_shpindel :: pystr where
  "s_shpindel \<equiv> [1096, 1087, 1080, 1085, 1076, 1077, 1083, 1100]"

abbreviation s_stanok_vibriruet :: pystr where
  "s_stanok_vibriruet \<equiv> [1089, 1090, 1072, 1085, 1086, 1082, 32, 1074, 1080, 1073, 1088, 1080, 1088, 1091, 1077, 1090]"

abbreviation s_Stanok :: pystr where
  "s_Stanok \<equiv> [1057, 1090, 1072, 1085, 1086, 1082]"

section \<open>Exceptions\<close>

text \<open>
  Every exception of the model is a subclass of \<open>Exception\<close>, so that
  \<open>except Exception\<close> catches each of them. \<open>LibraryError\<close> stands for whatever
  a library call raises.
\<close>

datatype error = AttributeError | IndexError | KeyError | TypeError | ValueError | LibraryError nat

text \<open>\<open>xs[0]\<close>\<close>

definition subscript0 :: "'a list \<Rightarrow> error + 'a" where
  "subscript0 xs = (case xs of [] \<Rightarrow> Inl IndexError | x # _ \<Rightarrow> Inr x)"

section \<open>The documents of spaCy and the parses of pymorphy\<close>

text \<open>
  The language pipeline and the morphological analyzer are libraries: the model
  takes what they return as data. A \<open>Doc\<close> has its text, its tokens (text,
  coarse part of speech, lemma), its entity spans (text, label) and the texts of
  its sentences. The fields \<open>tok_pos\<close>, \<open>tok_lemma\<close> and \<open>ent_label\<close> are
  spaCy's \<open>pos_\<close>, \<open>lemma_\<close> and \<open>label_\<close>.
\<close>

record token =
  tok_text :: pystr
  tok_pos :: string
  tok_lemma :: pystr

record ent =
  ent_text :: pystr
  ent_label :: string

record doc =
  doc_text :: pystr
  tokens :: "token list"
  ents :: "ent list"
  sents :: "pystr list"

text \<open>
  A parse of pymorphy: its tag (the grammemes it holds), its normal form and its
  lexeme (the forms of the word, each with a tag).
\<close>

record form =
  form_tag :: "string list"
  form_word :: pystr

record parse =
  tag :: "string list"
  normal_form :: pystr
  lexeme :: "form list"

type_synonym term_dict = "(pystr \<times> pystr list) list"

text \<open>
  The analyzer object \<open>self\<close>. \<open>morph\<close> is \<open>None\<close> when the morphological
  analyzer could not be created (\<open>__init__\<close> catches that), and otherwise its
  \<open>parse\<close> method, which may raise. \<open>nlp\<close> is the pipeline, from a text to its
  document: the call \<open>self.nlp(text)\<close> is taken to return. (A pipeline whose
  recognizer was never initialised raises on every text; it is not modelled.) A
  dictionary is a list of pairs in definition order, which is the order in which
  Python iterates over it.
\<close>

record analyzer =
  morph :: "(pystr \<Rightarrow> error + parse list) option"
  nlp :: "pystr \<Rightarrow> doc"
  pipe_names :: "string list"
  equipment_types :: term_dict
  components :: term_dict
  symptoms :: term_dict
  actions :: term_dict

section \<open>The term dictionaries\<close>

text \<open>
  The dictionary \<open>self.equipment_types\<close> of \<open>__init__\<close>, in definition order (transliterated):
  \<^item> stanok: stanok, stanka, stanku, stankom, stanke, frezer, frezernyj, tokar, tokarnyj, shlifoval'nyj, shlifovshchik, obrabatyvayushchij, obrabotka
  \<^item> press: press, pressa, pressu, pressom, presse, gidropress, gidravlicheskij press, krivoshipnyj press, pruzhinnyj press, pnevmaticheskij press
  \<^item> robot: robot, robota, robotu, robotom, robote, manipulyator, svarochnyj robot, avtomaticheskij robot, robotizirovannyj, manipulyator
  \<^item> konvejer: konvejer, lenta, transportyor, transporter, potok, transportnaya lenta, lentochnyj konvejer, skrebkovyj
  \<^item> kompressor: kompressor, kompressora, kompressoru, kompressorom, kompressore, vozdushnyj kompressor, maslyanyj kompressor, vozdushnyj nasos
  \<^item> liniya: liniya, linii, liniyu, liniej, line, upakovochnaya liniya, sborochnaya liniya, avtomaticheskaya liniya, kompleks
  \<^item> pech': pech', pechi, pech'yu, pechkoj, nagrevatel'naya ustanovka, otopitel'naya pech', kukhonnaya pech'
  \<^item> frezernyj stanok: frezer, frezernyj stanok, frezernaya ustanovka, frezernyj kompleks
  \<^item> tokarnyj stanok: tokar', tokarnyj stanok, tokarka, obrabotka po krugu
  \<^item> shlifoval'nyj stanok: shlifoval'shchik, shlifoval'nyj stanok, shlifovka, shlifoval'naya mashina
  \<^item> kraskopul't: kraskopul't, raspylitel', kraskoraspylitel', kraskopul'tu, kraskoraspylitel'
  \<^item> balansirovochnyj stanok: balansirovshchik, balansirovochnyj stanok, vzveshivayushchij
  \<^item> gal'vanicheskaya vanna: gal'vanicheskaya vanna, gal'vanika, elektrokhimicheskaya vanna
  \<^item> svarochnyj apparat: svarochnyj apparat, svarka, svarochnyj kompleks, svarochnyj
\<close>

definition equipment_types_init :: term_dict where
  "equipment_types_init =
    [([1089, 1090, 1072, 1085, 1086, 1082],
       [[1089, 1090, 1072, 1085, 1086, 1082],
        [1089, 1090, 1072, 1085, 1082, 1072],
        [1089, 1090, 1072, 1085, 1082, 1091],
        [1089, 1090, 1072, 1085, 1082, 1086, 1084],
        [1089, 1090, 1072, 1085, 1082, 1077],
        [1092, 1088, 1077, 1079, 1077, 1088],
        [1092, 1088, 1077, 1079, 1077, 1088, 1085, 1099, 1081],
        [1090, 1086, 1082, 1072, 1088],
        [1090, 1086, 1082, 1072, 1088, 1085, 1099, 1081],
        [1096, 1083, 1080, 1092, 1086, 1074, 1072, 1083, 1100, 1085, 1099, 1081],
        [1096, 1083, 1080, 1092, 1086, 1074, 1097, 1080, 1082],
        [1086, 1073, 1088, 1072, 1073, 1072, 1090, 1099, 1074, 1072, 1102, 1097, 1080, 1081],
        [1086, 1073, 1088, 1072, 1073, 1086, 1090, 1082, 1072]]
     ),
     ([1087, 1088, 1077, 1089, 1089],
       [[1087, 1088, 1077, 1089, 1089],
        [1087, 1088, 1077, 1089, 1089, 1072],
        [1087, 1088, 1077, 1089, 1089, 1091],
        [1087, 1088, 1077, 1089, 1089, 1086, 1084],
        [1087, 1088, 1077, 1089, 1089, 1077],
        [1075, 1080, 1076, 1088, 1086, 1087, 1088, 1077, 1089, 1089],
        [1075, 1080, 1076, 1088, 1072, 1074, 1083, 1080, 1095, 1077, 1089, 1082, 1080, 1081, 32, 1087, 1088, 1077, 1089, 1089],
        [1082, 1088, 1080, 1074, 1086, 1096, 1080, 1087, 1085, 1099, 1081, 32, 1087, 1088, 1077, 1089, 1089],
        [1087, 1088, 1091, 1078, 1080, 1085, 1085, 1099, 1081, 32, 1087, 1088, 1077, 1089, 1089],
        [1087, 1085, 1077, 1074, 1084, 1072, 1090, 1080, 1095, 1077, 1089, 1082, 1080, 1081, 32, 1087, 1088, 1077, 1089, 1089]]
     ),
     ([1088, 1086, 1073, 1086, 1090],
       [[1088, 1086, 1073, 1086, 1090],
        [1088, 1086, 1073, 1086, 1090, 1072],
        [1088, 1086, 1073, 1086, 1090, 1091],
        [1088, 1086, 1073, 1086, 1090, 1086, 1084],
        [1088, 1086, 1073, 1086, 1090, 1077],
        [1084, 1072, 1085, 1080, 1087, 1091, 1083, 1103, 1090, 1086, 1088],
        [1089, 1074, 1072, 1088, 1086, 1095, 1085, 1099, 1081, 32, 1088, 1086, 1073, 1086, 1090],
        [1072, 1074, 1090, 1086, 1084, 1072, 1090, 1080, 1095, 1077, 1089, 1082, 1080, 1081, 32, 1088, 1086, 1073, 1086, 1090],
        [1088, 1086, 1073, 1086, 1090, 1080, 1079, 1080, 1088, 1086, 1074, 1072, 1085, 1085, 1099, 1081],
        [1084, 1072, 1085, 1080, 1087, 1091, 1083, 1103, 1090, 1086, 1088]]
     ),
     ([1082, 1086, 1085, 1074, 1077, 1081, 1077, 1088],
       [[1082, 1086, 1085, 1074, 1077, 1081, 1077, 1088],
        [1083, 1077, 1085, 1090, 1072],
        [1090, 1088, 1072, 1085, 1089, 1087, 1086, 1088, 1090, 1105, 1088],
        [1090, 1088, 1072, 1085, 1089, 1087, 1086, 1088, 1090, 1077, 1088],
        [1087, 1086, 1090, 1086, 1082],
        [1090, 1088, 1072, 1085, 1089, 1087, 1086, 1088, 1090, 1085, 1072, 1103, 32, 1083, 1077, 1085, 1090, 1072],
        [1083, 1077, 1085, 1090, 1086, 1095, 1085, 1099, 1081, 32, 1082, 1086, 1085, 1074, 1077, 1081, 1077, 1088],
        [1089, 1082, 1088, 1077, 1073, 1082, 1086, 1074, 1099, 1081]]
     ),
     ([1082, 1086, 1084, 1087, 1088, 1077, 1089, 1089, 1086, 1088],
       [[1082, 1086, 1084, 1087, 1088, 1077, 1089, 1089, 1086, 1088],
        [1082, 1086, 1084, 1087, 1088, 1077, 1089, 1089, 1086, 1088, 1072],
        [1082, 1086, 1084, 1087, 1088, 1077, 1089, 1089, 1086, 1088, 1091],
        [1082, 1086, 1084, 1087, 1088, 1077, 1089, 1089, 1086, 1088, 1086, 1084],
        [1082, 1086, 1084, 1087, 1088, 1077, 1089, 1089, 1086, 1088, 1077],
        [1074, 1086, 1079, 1076, 1091, 1096, 1085, 1099, 1081, 32, 1082, 1086, 1084, 1087, 1088, 1077, 1089, 1089, 1086, 1088],
        [1084, 1072, 1089, 1083, 1103, 1085, 1099, 1081, 32, 1082, 1086, 1084, 1087, 1088, 1077, 1089, 1089, 1086, 1088],
        [1074, 1086, 1079, 1076, 1091, 1096, 1085, 1099, 1081, 32, 1085, 1072, 1089, 1086, 1089]]
     ),
     ([1083, 1080, 1085, 1080, 1103],
       [[1083, 1080, 1085, 1080, 1103],
        [1083, 1080, 1085, 1080, 1080],
        [1083, 1080, 1085, 1080, 1102],
        [1083, 1080, 1085, 1080, 1077, 1081],
        [1083, 1080, 1085, 1077],
        [1091, 1087, 1072, 1082, 1086, 1074, 1086, 1095, 1085, 1072, 1103, 32, 1083, 1080, 1085, 1080, 1103],
        [1089, 1073, 1086, 1088, 1086, 1095, 1085, 1072, 1103, 32, 1083, 1080, 1085, 1080, 1103],
        [1072, 1074, 1090, 1086, 1084, 1072, 1090, 1080, 1095, 1077, 1089, 1082, 1072, 1103, 32, 1083, 1080, 1085, 1080, 1103],
        [1082, 1086, 1084, 1087, 1083, 1077, 1082, 1089]]
     ),
     ([1087, 1077, 1095, 1100],
       [[1087, 1077, 1095, 1100],
        [1087, 1077, 1095, 1080],
        [1087, 1077, 1095, 1100, 1102],
        [1087, 1077, 1095, 1082, 1086, 1081],
        [1085, 1072, 1075, 1088, 1077, 1074, 1072, 1090, 1077, 1083, 1100, 1085, 1072, 1103, 32, 1091, 1089, 1090, 1072, 1085, 1086, 1074, 1082, 1072],
        [1086, 1090, 1086, 1087, 1080, 1090, 1077, 1083, 1100, 1085, 1072, 1103, 32, 1087, 1077, 1095, 1100],
        [1082, 1091, 1093, 1086, 1085, 1085, 1072, 1103, 32, 1087, 1077, 1095, 1100]]
     ),
     ([1092, 1088, 1077, 1079, 1077, 1088, 1085, 1099, 1081, 32, 1089, 1090, 1072, 1085, 1086, 1082],
       [[1092, 1088, 1077, 1079, 1077, 1088],
        [1092, 1088, 1077, 1079, 1077, 1088, 1085, 1099, 1081, 32, 1089, 1090, 1072, 1085, 1086, 1082],
        [1092, 1088, 1077, 1079, 1077, 1088, 1085, 1072, 1103, 32, 1091, 1089, 1090, 1072, 1085, 1086, 1074, 1082, 1072],
        [1092, 1088, 1077, 1079, 1077, 1088, 1085, 1099, 1081, 32, 1082, 1086, 1084, 1087, 1083, 1077, 1082, 1089]]
     ),
     ([1090, 1086, 1082, 1072, 1088, 1085, 1099, 1081, 32, 1089, 1090, 1072, 1085, 1086, 1082],
       [[1090, 1086, 1082, 1072, 1088, 1100],
        [1090, 1086, 1082, 1072, 1088, 1085, 1099, 1081, 32, 1089, 1090, 1072, 1085, 1086, 1082],
        [1090, 1086, 1082, 1072, 1088, 1082, 1072],
        [1086, 1073, 1088, 1072, 1073, 1086, 1090, 1082, 1072, 32, 1087, 1086, 32, 1082, 1088, 1091, 1075, 1091]]
     ),
     ([1096, 1083, 1080, 1092, 1086, 1074, 1072, 1083, 1100, 1085, 1099, 1081, 32, 1089, 1090, 1072, 1085, 1086, 1082],
       [[1096, 1083, 1080, 1092, 1086, 1074, 1072, 1083, 1100, 1097, 1080, 1082],
        [1096, 1083, 1080, 1092, 1086, 1074, 1072, 1083, 1100, 1085, 1099, 1081, 32, 1089, 1090, 1072, 1085, 1086, 1082],
        [1096, 1083, 1080, 1092, 1086, 1074, 1082, 1072],
        [1096, 1083, 1080, 1092, 1086, 1074, 1072, 1083, 1100, 1085, 1072, 1103, 32, 1084, 1072, 1096, 1080, 1085, 1072]]
     ),
     ([1082, 1088, 1072, 1089, 1082, 1086, 1087, 1091, 1083, 1100, 1090],
       [[1082, 1088, 1072, 1089, 1082, 1086, 1087, 1091, 1083, 1100, 1090],
        [1088, 1072, 1089, 1087, 1099, 1083, 1080, 1090, 1077, 1083, 1100],
        [1082, 1088, 1072, 1089, 1082, 1086, 1088, 1072, 1089, 1087, 1099, 1083, 1080, 1090, 1077, 1083, 1100],
        [1082, 1088, 1072, 1089, 1082, 1086, 1087, 1091, 1083, 1100, 1090, 1091],
        [1082, 1088, 1072, 1089, 1082, 1086, 1088, 1072, 1089, 1087, 1099, 1083, 1080, 1090, 1077, 1083, 1100]]
     ),
     ([1073, 1072, 1083, 1072, 1085, 1089, 1080, 1088, 1086, 1074, 1086, 1095, 1085, 1099, 1081, 32, 1089, 1090, 1072, 1085, 1086, 1082],
       [[1073, 1072, 1083, 1072, 1085, 1089, 1080, 1088, 1086, 1074, 1097, 1080, 1082],
        [1073, 1072, 1083, 1072, 1085, 1089, 1080, 1088, 1086, 1074, 1086, 1095, 1085, 1099, 1081, 32, 1089, 1090, 1072, 1085, 1086, 1082],
        [1074, 1079, 1074, 1077, 1096, 1080, 1074, 1072, 1102, 1097, 1080, 1081]]
     ),
     ([1075, 1072, 1083, 1100, 1074, 1072, 1085, 1080, 1095, 1077, 1089, 1082, 1072, 1103, 32, 1074, 1072, 1085, 1085, 1072],
       [[1075, 1072, 1083, 1100, 1074, 1072, 1085, 1080, 1095, 1077, 1089, 1082, 1072, 1103, 32, 1074, 1072, 1085, 1085, 1072],
        [1075, 1072, 1083, 1100, 1074, 1072, 1085, 1080, 1082, 1072],
        [1101, 1083, 1077, 1082, 1090, 1088, 1086, 1093, 1080, 1084, 1080, 1095, 1077, 1089, 1082, 1072, 1103, 32, 1074, 1072, 1085, 1085, 1072]]
     ),
     ([1089, 1074, 1072, 1088, 1086, 1095, 1085, 1099, 1081, 32, 1072, 1087, 1087, 1072, 1088, 1072, 1090],
       [[1089, 1074, 1072, 1088, 1086, 1095, 1085, 1099, 1081, 32, 1072, 1087, 1087, 1072, 1088, 1072, 1090],
        [1089, 1074, 1072, 1088, 1082, 1072],
        [1089, 1074, 1072, 1088, 1086, 1095, 1085, 1099, 1081, 32, 1082, 1086, 1084, 1087, 1083, 1077, 1082, 1089],
        [1089, 1074, 1072, 1088, 1086, 1095, 1085, 1099, 1081]]
     )]"

text \<open>
  The dictionary \<open>self.components\<close> of \<open>__init__\<close>, in definition order (transliterated):
  \<^item> shpindel': shpindel', shpindelya, shpindelyu, shpindelem, shpindele, val, torets, chast' vrashcheniya
  \<^item> podshipnik: podshipnik, podshipnika, podshipniku, podshipnikom, podshipnike, rolik, opora
  \<^item> gidravlika: gidravlika, gidravliki, gidravliku, gidravlikoj, gidravlike, nasos, tsilindr, truboprovod
  \<^item> elektrodvigatel': elektrodvigatel', elektrodvigatelya, elektrodvigatelyu, elektrodvigatelem, elektricheskij motor, dvigatel'
  \<^item> remen': remen', privodnoj remen', klinovoj remen', zubchatyj remen', lenta, privod
  \<^item> datchik: datchik, sensor, signalizator, izmeritel', kontrol'nyj pribor, tester
  \<^item> transmissiya: transmissiya, peredacha, reduktor, mekhanizm peredachi
  \<^item> kabel': kabel', provod, tros, zhgut, provodka
\<close>

definition components_init :: term_dict where
  "components_init =
    [([1096, 1087, 1080, 1085, 1076, 1077, 1083, 1100],
       [[1096, 1087, 1080, 1085, 1076, 1077, 1083, 1100],
        [1096, 1087, 1080, 1085, 1076, 1077, 1083, 1103],
        [1096, 1087, 1080, 1085, 1076, 1077, 1083, 1102],
        [1096, 1087, 1080, 1085, 1076, 1077, 1083, 1077, 1084],
        [1096, 1087, 1080, 1085, 1076, 1077, 1083, 1077],
        [1074, 1072, 1083],
        [1090, 1086, 1088, 1077, 1094],
        [1095, 1072, 1089, 1090, 1100, 32, 1074, 1088, 1072, 1097, 1077, 1085, 1080, 1103]]
     ),
     ([1087, 1086, 1076, 1096, 1080, 1087, 1085, 1080, 1082],
       [[1087, 1086, 1076, 1096, 1080, 1087, 1085, 1080, 1082],
        [1087, 1086, 1076, 1096, 1080, 1087, 1085, 1080, 1082, 1072],
        [1087, 1086, 1076, 1096, 1080, 1087, 1085, 1080, 1082, 1091],
        [1087, 1086, 1076, 1096, 1080, 1087, 1085, 1080, 1082, 1086, 1084],
        [1087, 1086, 1076, 1096, 1080, 1087, 1085, 1080, 1082, 1077],
        [1088, 1086, 1083, 1080, 1082],
        [1086, 1087, 1086, 1088, 1072]]
     ),
     ([1075, 1080, 1076, 1088, 1072, 1074, 1083, 1080, 1082, 1072],
       [[1075, 1080, 1076, 1088, 1072, 1074, 1083, 1080, 1082, 1072],
        [1075, 1080, 1076, 1088, 1072, 1074, 1083, 1080, 1082, 1080],
        [1075, 1080, 1076, 1088, 1072, 1074, 1083, 1080, 1082, 1091],
        [1075, 1080, 1076, 1088, 1072, 1074, 1083, 1080, 1082, 1086, 1081],
        [1075, 1080, 1076, 1088, 1072, 1074, 1083, 1080, 1082, 1077],
        [1085, 1072, 1089, 1086, 1089],
        [1094, 1080, 1083, 1080, 1085, 1076, 1088],
        [1090, 1088, 1091, 1073, 1086, 1087, 1088, 1086, 1074, 1086, 1076]]
     ),
     ([1101, 1083, 1077, 1082, 1090, 1088, 1086, 1076, 1074, 1080, 1075, 1072, 1090, 1077, 1083, 1100],
       [[1101, 1083, 1077, 1082, 1090, 1088, 1086, 1076, 1074, 1080, 1075, 1072, 1090, 1077, 1083, 1100],
        [1101, 1083, 1077, 1082, 1090, 1088, 1086, 1076, 1074, 1080, 1075, 1072, 1090, 1077, 1083, 1103],
        [1101, 1083, 1077, 1082, 1090, 1088, 1086, 1076, 1074, 1080, 1075, 1072, 1090, 1077, 1083, 1102],
        [1101, 1083, 1077, 1082, 1090, 1088, 1086, 1076, 1074, 1080, 1075, 1072, 1090, 1077, 1083, 1077, 1084],
        [1101, 1083, 1077, 1082, 1090, 1088, 1080, 1095, 1077, 1089, 1082, 1080, 1081, 32, 1084, 1086, 1090, 1086, 1088],
        [1076, 1074, 1080, 1075, 1072, 1090, 1077, 1083, 1100]]
     ),
     ([1088, 1077, 1084, 1077, 1085, 1100],
       [[1088, 1077, 1084, 1077, 1085, 1100],
        [1087, 1088, 1080, 1074, 1086, 1076, 1085, 1086, 1081, 32, 1088, 1077, 1084, 1077, 1085, 1100],
        [1082, 1083, 1080, 1085, 1086, 1074, 1086, 1081, 32, 1088, 1077, 1084, 1077, 1085, 1100],
        [1079, 1091, 1073, 1095, 1072, 1090, 1099, 1081, 32, 1088, 1077, 1084, 1077, 1085, 1100],
        [1083, 1077, 1085, 1090, 1072],
        [1087, 1088, 1080, 1074, 1086, 1076]]
     ),
     ([1076, 1072, 1090, 1095, 1080, 1082],
       [[1076, 1072, 1090, 1095, 1080, 1082],
        [1089, 1077, 1085, 1089, 1086, 1088],
        [1089, 1080, 1075, 1085, 1072, 1083, 1080, 1079, 1072, 1090, 1086, 1088],
        [1080, 1079, 1084, 1077, 1088, 1080, 1090, 1077, 1083, 1100],
        [1082, 1086, 1085, 1090, 1088, 1086, 1083, 1100, 1085, 1099, 1081, 32, 1087, 1088, 1080, 1073, 1086, 1088],
        [1090, 1077, 1089, 1090, 1077, 1088]]
     ),
     ([1090, 1088, 1072, 1085, 1089, 1084, 1080, 1089, 1089, 1080, 1103],
       [[1090, 1088, 1072, 1085, 1089, 1084, 1080, 1089, 1089, 1080, 1103],
        [1087, 1077, 1088, 1077, 1076, 1072, 1095, 1072],
        [1088, 1077, 1076, 1091, 1082, 1090, 1086, 1088],
        [1084, 1077, 1093, 1072, 1085, 1080, 1079, 1084, 32, 1087, 1077, 1088, 1077, 1076, 1072, 1095, 1080]]
     ),
     ([1082, 1072, 1073, 1077, 1083, 1100],
       [[1082, 1072, 1073, 1077, 1083, 1100],
        [1087, 1088, 1086, 1074, 1086, 1076],
        [1090, 1088, 1086, 1089],
        [1078, 1075, 1091, 1090],
        [1087, 1088, 1086, 1074, 1086, 1076, 1082, 1072]]
     )]"

text \<open>
  The dictionary \<open>self.symptoms\<close> of \<open>__init__\<close>, in definition order (transliterated):
  \<^item> shum: shum, shuma, shumom, shume, gudenie, skrezhet, skrip, vizg
  \<^item> vibratsiya: vibratsiya, vibratsii, vibratsiyu, vibratsiej, tryaska, drebezzhanie, kolebaniya
  \<^item> peregrev: peregrev, peregreva, peregrevu, peregrevom, zhar, teplovoj rezhim, peregrevanie
  \<^item> oshibka: oshibka, oshibki, oshibku, oshibkoj, sboj, neispravnost', glyuk, problema
  \<^item> utechka: utechka, tech', protechka, kapaet, podtekanie, vytekaet, vyliv
  \<^item> zaderzhka: zaderzhka, zaderzhki, zaderzhku, zaderzhkoj, zamedlenie, zavisanie
  \<^item> korroziya: korroziya, rzhavchina, okislenie, zagnivanie
  \<^item> zasor: zasor, zagryaznenie, zabitost', zasorenie
\<close>

definition symptoms_init :: term_dict where
  "symptoms_init =
    [([1096, 1091, 1084],
       [[1096, 1091, 1084],
        [1096, 1091, 1084, 1072],
        [1096, 1091, 1084, 1086, 1084],
        [1096, 1091, 1084, 1077],
        [1075, 1091, 1076, 1077, 1085, 1080, 1077],
        [1089, 1082, 1088, 1077, 1078, 1077, 1090],
        [1089, 1082, 1088, 1080, 1087],
        [1074, 1080, 1079, 1075]]
     ),
     ([1074, 1080, 1073, 1088, 1072, 1094, 1080, 1103],
       [[1074, 1080, 1073, 1088, 1072, 1094, 1080, 1103],
        [1074, 1080, 1073, 1088, 1072, 1094, 1080, 1080],
        [1074, 1080, 1073, 1088, 1072, 1094, 1080, 1102],
        [1074, 1080, 1073, 1088, 1072, 1094, 1080, 1077, 1081],
        [1090, 1088, 1103, 1089, 1082, 1072],
        [1076, 1088, 1077, 1073, 1077, 1079, 1078, 1072, 1085, 1080, 1077],
        [1082, 1086, 1083, 1077, 1073, 1072, 1085, 1080, 1103]]
     ),
     ([1087, 1077, 1088, 1077, 1075, 1088, 1077, 1074],
       [[1087, 1077, 1088, 1077, 1075, 1088, 1077, 1074],
        [1087, 1077, 1088, 1077, 1075, 1088, 1077, 1074, 1072],
        [1087, 1077, 1088, 1077, 1075, 1088, 1077, 1074, 1091],
        [1087, 1077, 1088, 1077, 1075, 1088, 1077, 1074, 1086, 1084],
        [1078, 1072, 1088],
        [1090, 1077, 1087, 1083, 1086, 1074, 1086, 1081, 32, 1088, 1077, 1078, 1080, 1084],
        [1087, 1077, 1088, 1077, 1075, 1088, 1077, 1074, 1072, 1085, 1080, 1077]]
     ),
     ([1086, 1096, 1080, 1073, 1082, 1072],
       [[1086, 1096, 1080, 1073, 1082, 1072],
        [1086, 1096, 1080, 1073, 1082, 1080],
        [1086, 1096, 1080, 1073, 1082, 1091],
        [1086, 1096, 1080, 1073, 1082, 1086, 1081],
        [1089, 1073, 1086, 1081],
        [1085, 1077, 1080, 1089, 1087, 1088, 1072, 1074, 1085, 1086, 1089, 1090, 1100],
        [1075, 1083, 1102, 1082],
        [1087, 1088, 1086, 1073, 1083, 1077, 1084, 1072]]
     ),
     ([1091, 1090, 1077, 1095, 1082, 1072],
       [[1091, 1090, 1077, 1095, 1082, 1072],
        [1090, 1077, 1095, 1100],
        [1087, 1088, 1086, 1090, 1077, 1095, 1082, 1072],
        [1082, 1072, 1087, 1072, 1077, 1090],
        [1087, 1086, 1076, 1090, 1077, 1082, 1072, 1085, 1080, 1077],
        [1074, 1099, 1090, 1077, 1082, 1072, 1077, 1090],
        [1074, 1099, 1083, 1080, 1074]]
     ),
     ([1079, 1072, 1076, 1077, 1088, 1078, 1082, 1072],
       [[1079, 1072, 1076, 1077, 1088, 1078, 1082, 1072],
        [1079, 1072, 1076, 1077, 1088, 1078, 1082, 1080],
        [1079, 1072, 1076, 1077, 1088, 1078, 1082, 1091],
        [1079, 1072, 1076, 1077, 1088, 1078, 1082, 1086, 1081],
        [1079, 1072, 1084, 1077, 1076, 1083, 1077, 1085, 1080, 1077],
        [1079, 1072, 1074, 1080, 1089, 1072, 1085, 1080, 1077]]
     ),
     ([1082, 1086, 1088, 1088, 1086, 1079, 1080, 1103],
       [[1082, 1086, 1088, 1088, 1086, 1079, 1080, 1103],
        [1088, 1078, 1072, 1074, 1095, 1080, 1085, 1072],
        [1086, 1082, 1080, 1089, 1083, 1077, 1085, 1080, 1077],
        [1079, 1072, 1075, 1085, 1080, 1074, 1072, 1085, 1080, 1077]]
     ),
     ([1079, 1072, 1089, 1086, 1088],
       [[1079, 1072, 1089, 1086, 1088],
        [1079, 1072, 1075, 1088, 1103, 1079, 1085, 1077, 1085, 1080, 1077],
        [1079, 1072, 1073, 1080, 1090, 1086, 1089, 1090, 1100],
        [1079, 1072, 1089, 1086, 1088, 1077, 1085, 1080, 1077]]
     )]"

text \<open>
  The dictionary \<open>self.actions\<close> of \<open>__init__\<close>, in definition order (transliterated):
  \<^item> zamena: zamena, smena, promyvka, remont, ustanovka, obsluzhivanie
  \<^item> remont: remont, pochinka, vosstanovlenie, zamena, obnovlenie
  \<^item> proverka: proverka, diagnostika, osmotr, testirovanie
  \<^item> nastrojka: nastrojka, regulirovka, kalibrovka
  \<^item> zamorozhen: zamorozhen, ostanovlen, vyklyuchen, zablokirovan
\<close>

definition actions_init :: term_dict where
  "actions_init =
    [([1079, 1072, 1084, 1077, 1085, 1072],
       [[1079, 1072, 1084, 1077, 1085, 1072],
        [1089, 1084, 1077, 1085, 1072],
        [1087, 1088, 1086, 1084, 1099, 1074, 1082, 1072],
        [1088, 1077, 1084, 1086, 1085, 1090],
        [1091, 1089, 1090, 1072, 1085, 1086, 1074, 1082, 1072],
        [1086, 1073, 1089, 1083, 1091, 1078, 1080, 1074, 1072, 1085, 1080, 1077]]
     ),
     ([1088, 1077, 1084, 1086, 1085, 1090],
       [[1088, 1077, 1084, 1086, 1085, 1090],
        [1087, 1086, 1095, 1080, 1085, 1082, 1072],
        [1074, 1086, 1089, 1089, 1090, 1072, 1085, 1086, 1074, 1083, 1077, 1085, 1080, 1077],
        [1079, 1072, 1084, 1077, 1085, 1072],
        [1086, 1073, 1085, 1086, 1074, 1083, 1077, 1085, 1080, 1077]]
     ),
     ([1087, 1088, 1086, 1074, 1077, 1088, 1082, 1072],
       [[1087, 1088, 1086, 1074, 1077, 1088, 1082, 1072],
        [1076, 1080, 1072, 1075, 1085, 1086, 1089, 1090, 1080, 1082, 1072],
        [1086, 1089, 1084, 1086, 1090, 1088],
        [1090, 1077, 1089, 1090, 1080, 1088, 1086, 1074, 1072, 1085, 1080, 1077]]
     ),
     ([1085, 1072, 1089, 1090, 1088, 1086, 1081, 1082, 1072],
       [[1085, 1072, 1089, 1090, 1088, 1086, 1081, 1082, 1072],
        [1088, 1077, 1075, 1091, 1083, 1080, 1088, 1086, 1074, 1082, 1072],
        [1082, 1072, 1083, 1080, 1073, 1088, 1086, 1074, 1082, 1072]]
     ),
     ([1079, 1072, 1084, 1086, 1088, 1086, 1078, 1077, 1085],
       [[1079, 1072, 1084, 1086, 1088, 1086, 1078, 1077, 1085],
        [1086, 1089, 1090, 1072, 1085, 1086, 1074, 1083, 1077, 1085],
        [1074, 1099, 1082, 1083, 1102, 1095, 1077, 1085],
        [1079, 1072, 1073, 1083, 1086, 1082, 1080, 1088, 1086, 1074, 1072, 1085]]
     )]"


section \<open>Normalizer and lexical matcher\<close>

text \<open>
  \<^verbatim>\<open>
  def _normalize(self, word):
      if not word or not self.morph:
          return word.lower() if word else ""
      try:
          return self.morph.parse(word)[0].normal_form
      except Exception:
          return word.lower()
  \<close>
\<close>

definition normalize_word :: "analyzer \<Rightarrow> pystr \<Rightarrow> error + pystr" where
  "normalize_word a word =
     (case morph a of
        None \<Rightarrow> Inr (if truthy word then lower word else [])
      | Some parse_fn \<Rightarrow>
          if \<not> truthy word then Inr []
          else (case (case parse_fn word of
                        Inl e \<Rightarrow> Inl e
                      | Inr ps \<Rightarrow> (case subscript0 ps of Inl e \<Rightarrow> Inl e | Inr p \<Rightarrow> Inr (normal_form p))) of
                  Inl e \<Rightarrow> Inr (lower word)
                | Inr r \<Rightarrow> Inr r))"

text \<open>
  \<^verbatim>\<open>
  def _match_term(self, text, term_dict):
      if text is None:
          return None
      text_lower = text.lower()
      normalized = self._normalize(text_lower)
      for term, variants in term_dict.items():
          if normalized == term or any(
                  normalized == self._normalize(variant.lower())
                  for variant in variants):
              return term
      return None
  \<close>
  \<open>any_variant\<close> is the generator under \<open>any\<close>, which stops at the first
  variant that matches; \<open>match_loop\<close> is the loop over the dictionary.
\<close>

fun any_variant :: "analyzer \<Rightarrow> pystr \<Rightarrow> pystr list \<Rightarrow> error + bool" where
  "any_variant a n [] = Inr False"
| "any_variant a n (v # vs) =
     (case normalize_word a (lower v) of
        Inl e \<Rightarrow> Inl e
      | Inr nv \<Rightarrow> if n = nv then Inr True else any_variant a n vs)"

fun match_loop :: "analyzer \<Rightarrow> pystr \<Rightarrow> term_dict \<Rightarrow> error + pystr option" where
  "match_loop a n [] = Inr None"
| "match_loop a n ((term, variants) # rest) =
     (if n = term then Inr (Some term)
      else (case any_variant a n variants of
              Inl e \<Rightarrow> Inl e
            | Inr b \<Rightarrow> if b then Inr (Some term) else match_loop a n rest))"

definition match_term :: "analyzer \<Rightarrow> pystr option \<Rightarrow> term_dict \<Rightarrow> error + pystr option" where
  "match_term a text d =
     (case text of
        None \<Rightarrow> Inr None
      | Some t \<Rightarrow>
          (case normalize_word a (lower t) of
             Inl e \<Rightarrow> Inl e
           | Inr normalized \<Rightarrow> match_loop a normalized d))"

text \<open>
  The matcher in the words of the specification: an entry matches the normalized
  input when its key is equal to it, or when one of its variants, lowercased and
  then normalized, is.
\<close>

definition entry_matches :: "analyzer \<Rightarrow> pystr \<Rightarrow> pystr \<times> pystr list \<Rightarrow> bool" where
  "entry_matches a n entry =
     (n = fst entry \<or> (\<exists>v \<in> set (snd entry). normalize_word a (lower v) = Inr n))"


text \<open>
  \<^verbatim>\<open>
  def _convert_verb_to_noun(self, word):
      if not word:
          return None
      try:
          parsed = self.morph.parse(word)
          if not parsed:
              return None
          if 'VERB' in parsed[0].tag or 'PRTS' in parsed[0].tag:
              for form in parsed[0].lexeme:
                  if 'NOUN' in form.tag:
                      return form.word
          if 'ADJF' in parsed[0].tag or 'ADJS' in parsed[0].tag:
              for form in parsed[0].lexeme:
                  if 'NOUN' in form.tag:
                      return form.word
          return word
      except Exception:
          return word
  \<close>
  With \<open>self.morph\<close> equal to \<open>None\<close> the call \<open>self.morph.parse\<close> raises
  an \<open>AttributeError\<close>, inside the \<open>try\<close>.
\<close>

definition first_noun_form :: "form list \<Rightarrow> pystr option" where
  "first_noun_form fs = map_option form_word (find (\<lambda>f. ''NOUN'' \<in> set (form_tag f)) fs)"

definition convert_in_try :: "analyzer \<Rightarrow> pystr \<Rightarrow> error + pystr option" where
  "convert_in_try a word =
     (case morph a of
        None \<Rightarrow> Inl AttributeError
      | Some parse_fn \<Rightarrow>
          (case parse_fn word of
             Inl e \<Rightarrow> Inl e
           | Inr parsed \<Rightarrow>
               (case parsed of
                  [] \<Rightarrow> Inr None
                | p # _ \<Rightarrow>
                    (case (if ''VERB'' \<in> set (tag p) \<or> ''PRTS'' \<in> set (tag p)
                           then first_noun_form (lexeme p) else None) of
                       Some w \<Rightarrow> Inr (Some w)
                     | None \<Rightarrow>
                         (case (if ''ADJF'' \<in> set (tag p) \<or> ''ADJS'' \<in> set (tag p)
                                then first_noun_form (lexeme p) else None) of
                            Some w \<Rightarrow> Inr (Some w)
                          | None \<Rightarrow> Inr (Some word))))))"

definition convert_verb_to_noun :: "analyzer \<Rightarrow> pystr \<Rightarrow> error + pystr option" where
  "convert_verb_to_noun a word =
     (if \<not> truthy word then Inr None
      else (case convert_in_try a word of
              Inl e \<Rightarrow> Inr (Some word)
            | Inr r \<Rightarrow> Inr r))"

section \<open>Rule-based extraction\<close>

text \<open>
  The loops of the shape
  \<^verbatim>\<open>
  for x in xs:
      r = f(x)
      if r:
          acc.add(r)
  \<close>
  where \<open>f\<close> returns \<open>None\<close> or a string and may raise.
\<close>

fun add_matches :: "('a \<Rightarrow> error + pystr option) \<Rightarrow> 'a list \<Rightarrow> pystr set \<Rightarrow> error + pystr set" where
  "add_matches f [] acc = Inr acc"
| "add_matches f (x # xs) acc =
     (case f x of
        Inl e \<Rightarrow> Inl e
      | Inr None \<Rightarrow> add_matches f xs acc
      | Inr (Some r) \<Rightarrow> add_matches f xs (if truthy r then insert r acc else acc))"

text \<open>
  \<^verbatim>\<open>
  def _get_components(self, doc):
      components = set()
      for token in doc:
          word = self._convert_verb_to_noun(token.text)
          component = self._match_term(word, self.components)
          if component:
              components.add(component)
      if not components:
          return ["Ne ukazany"]
      return list(components)
  \<close>
  The order of \<open>list(components)\<close> is the order of Python's hash table: the result
  is modelled as the set.
\<close>

definition get_components :: "analyzer \<Rightarrow> doc \<Rightarrow> error + pystr set" where
  "get_components a d =
     (case add_matches
             (\<lambda>t. case convert_verb_to_noun a (tok_text t) of
                     Inl e \<Rightarrow> Inl e
                   | Inr word \<Rightarrow> match_term a word (components a))
             (tokens d) {} of
        Inl e \<Rightarrow> Inl e
      | Inr cs \<Rightarrow> Inr (if cs = {} then {s_Ne_ukazany} else cs))"

text \<open>
  \<^verbatim>\<open>
  def _get_components_from_dict(self, doc):
      components = set()
      for token in doc:
          component = self._match_term(token.text, self.components)
          if component:
              components.add(component)
      return list(components) if components else ["Ne ukazany"]
  \<close>
  and \<open>_get_symptoms_from_dict\<close>, the same with \<open>self.symptoms\<close> and the sentinel
  "Simptomy ne opisany".
\<close>

definition get_components_from_dict :: "analyzer \<Rightarrow> doc \<Rightarrow> error + pystr set" where
  "get_components_from_dict a d =
     (case add_matches (\<lambda>t. match_term a (Some (tok_text t)) (components a)) (tokens d) {} of
        Inl e \<Rightarrow> Inl e
      | Inr cs \<Rightarrow> Inr (if cs = {} then {s_Ne_ukazany} else cs))"

definition get_symptoms_from_dict :: "analyzer \<Rightarrow> doc \<Rightarrow> error + pystr set" where
  "get_symptoms_from_dict a d =
     (case add_matches (\<lambda>t. match_term a (Some (tok_text t)) (symptoms a)) (tokens d) {} of
        Inl e \<Rightarrow> Inl e
      | Inr ss \<Rightarrow> Inr (if ss = {} then {s_Simptomy_ne_opisany} else ss))"

text \<open>
  \<^verbatim>\<open>
  def _detect_urgency(self, doc):
      text_lower = doc.text.lower()
      urgency_words = {
          "vysokaya": ["srochno", "avariya", "ostanovka", "kritichn"],
          "nizkaya": ["planovyj", "ne srochno", "profilaktika"]
      }
      for level, words in urgency_words.items():
          if any(word in text_lower for word in words):
              return level.capitalize()
      return "Srednyaya"
  \<close>
\<close>

definition high_urgency_words :: "pystr list" where
  "high_urgency_words = [s_srochno, s_avariya, s_ostanovka, s_kritichn]"

definition low_urgency_words :: "pystr list" where
  "low_urgency_words = [s_planovyj, s_ne_srochno, s_profilaktika]"

definition urgency_words :: "(pystr \<times> pystr list) list" where
  "urgency_words = [(s_vysokaya, high_urgency_words), (s_nizkaya, low_urgency_words)]"

fun urgency_loop :: "(pystr \<times> pystr list) list \<Rightarrow> pystr \<Rightarrow> pystr option" where
  "urgency_loop [] text_lower = None"
| "urgency_loop ((level, ws) # rest) text_lower =
     (if list_ex (\<lambda>w. is_substr w text_lower) ws then Some (capitalize level)
      else urgency_loop rest text_lower)"

definition detect_urgency :: "doc \<Rightarrow> pystr" where
  "detect_urgency d =
     (case urgency_loop urgency_words (lower (doc_text d)) of
        Some level \<Rightarrow> level
      | None \<Rightarrow> s_Srednyaya)"

text \<open>
  The older analyzer of \<open>NLP_with_spaCy.py\<close> (class \<open>EquipmentFailureAnalyzer\<close>):
  \<^verbatim>\<open>
  def _detect_urgency(self, doc):
      text_lower = doc.text.lower()
      if any(word in text_lower for word in ["srochno", "avariya", "ostanovilsya", "srochnyj"]):
          return "Vysokaya"
      elif "neznachitel'nyj" in text_lower:
          return "Nizkaya"
      return "Srednyaya"

  def _get_equipment_id(self, doc):
      for ent in doc.ents:
          if ent.label_ in ["ORG", "PER"] or any(c.isdigit() for c in ent.text):
              return ent.text
      return "Ne ukazan"
  \<close>
\<close>

definition efa_high_urgency_words :: "pystr list" where
  "efa_high_urgency_words = [s_srochno, s_avariya, s_ostanovilsya, s_srochnyj]"

definition efa_detect_urgency :: "doc \<Rightarrow> pystr" where
  "efa_detect_urgency d =
     (let text_lower = lower (doc_text d) in
      if list_ex (\<lambda>w. is_substr w text_lower) efa_high_urgency_words
      then s_Vysokaya
      else if is_substr s_neznachitelnyj text_lower then s_Nizkaya
      else s_Srednyaya)"



text \<open>
  \<^verbatim>\<open>
  def _get_timestamp(self, doc):
      for ent in doc.ents:
          if ent.label_ == "DATE":
              return ent.text
      return datetime.now().strftime("%d.%m.%Y %H:%M")
  \<close>
  The reading of the clock, already formatted, is the argument \<open>now\<close>.
\<close>

definition get_timestamp :: "doc \<Rightarrow> pystr \<Rightarrow> pystr" where
  "get_timestamp d now =
     (case find (\<lambda>e. ent_label e = ''DATE'') (ents d) of
        Some e \<Rightarrow> ent_text e
      | None \<Rightarrow> now)"

text \<open>
  \<^verbatim>\<open>
  def _verb_to_symptom_noun(self, verb):
      mapping = { "vibrirovat'": "vibratsiya", "shumet'": "shum",
                  "peregrevat'sya": "peregrev", "tech'": "tech'",
                  "zavisat'": "zavisanie", "ostanavlivat'sya": "ostanovka" }
      parsed = self.morph.parse(verb)[0]
      if parsed.normal_form in mapping:
          return mapping[parsed.normal_form]
      return None
  \<close>
  There is no \<open>try\<close> here: what \<open>self.morph.parse(verb)[0]\<close> raises reaches
  the caller.
\<close>

definition symptom_mapping :: "(pystr \<times> pystr) list" where
  "symptom_mapping =
     [(s_vibrirovat, s_vibratsiya), (s_shumet, s_shum), (s_peregrevatsya, s_peregrev),
      (s_tech, s_tech), (s_zavisat, s_zavisanie), (s_ostanavlivatsya, s_ostanovka)]"

definition verb_to_symptom_noun :: "analyzer \<Rightarrow> pystr \<Rightarrow> error + pystr option" where
  "verb_to_symptom_noun a verb =
     (case morph a of
        None \<Rightarrow> Inl AttributeError
      | Some parse_fn \<Rightarrow>
          (case parse_fn verb of
             Inl e \<Rightarrow> Inl e
           | Inr ps \<Rightarrow>
               (case subscript0 ps of
                  Inl e \<Rightarrow> Inl e
                | Inr parsed \<Rightarrow> Inr (map_of symptom_mapping (normal_form parsed)))))"

text \<open>
  \<^verbatim>\<open>
  def _find_unknown_terms(self, doc):
      unknown = []
      for token in doc:
          if (token.pos_ in ["NOUN", "PROPN"] and
                  not any(ent.text == token.text for ent in doc.ents)):
              unknown.append(token.text)
      return unknown
  \<close>
\<close>

definition find_unknown_terms :: "doc \<Rightarrow> pystr list" where
  "find_unknown_terms d =
     map tok_text
       (filter (\<lambda>t. tok_pos t \<in> set [''NOUN'', ''PROPN'']
                    \<and> \<not> list_ex (\<lambda>e. ent_text e = tok_text t) (ents d))
          (tokens d))"


text \<open>
  \<^verbatim>\<open>
  def _get_symptoms(self, doc):
      symptoms = set()
      for ent in doc.ents:
          if ent.label_ == "SYMPTOM":
              symptoms.add(ent.text.lower())
      for token in doc:
          symptom = self._match_term(token.text, self.symptoms)
          if symptom:
              symptoms.add(symptom)
          symptom = self._match_term(token.lemma_, self.symptoms)
          if symptom:
              symptoms.add(symptom)
      for token in doc:
          if token.pos_ in ["VERB", "ADJ"]:
              noun_form = self._convert_verb_to_noun(token.text)
              if noun_form:
                  symptom = self._match_term(noun_form, self.symptoms)
                  if symptom:
                      symptoms.add(symptom)
      for i in range(len(doc)-1):
          phrase = f"{doc[i].text} {doc[i+1].text}"
          symptom = self._match_term(phrase, self.symptoms)
          if symptom:
              symptoms.add(symptom)
      if "sentencizer" in self.nlp.pipe_names:
          for sent in doc.sents:
              sent_text = sent.text.lower()
              for symptom, variants in self.symptoms.items():
                  if any(variant in sent_text for variant in variants):
                      symptoms.add(symptom)
      text_lower = doc.text.lower()
      if any(word in text_lower for word in ["vibriruet", "drozhit", "tryasetsya"]):
          symptoms.add("vibratsiya")
      if any(word in text_lower for word in ["shumit", "gudit", "skripit"]):
          symptoms.add("shum")
      if any(word in text_lower for word in ["peregrevaetsya", "nagrevaetsya"]):
          symptoms.add("peregrev")
      return list(symptoms) if symptoms else ["Simptomy ne opisany"]
  \<close>
\<close>

definition phrases :: "token list \<Rightarrow> pystr list" where
  "phrases ts = map (\<lambda>(t, n). tok_text t @ [32] @ tok_text n) (zip ts (tl ts))"

definition sentence_symptoms :: "analyzer \<Rightarrow> doc \<Rightarrow> pystr set" where
  "sentence_symptoms a d =
     (if ''sentencizer'' \<in> set (pipe_names a)
      then set (map fst
             (filter (\<lambda>(symptom, variants).
                        list_ex (\<lambda>sent. list_ex (\<lambda>v. is_substr v (lower sent)) variants) (sents d))
                (symptoms a)))
      else {})"

definition extra_symptoms :: "doc \<Rightarrow> pystr set" where
  "extra_symptoms d =
     (let text_lower = lower (doc_text d) in
        (if list_ex (\<lambda>w. is_substr w text_lower) [s_vibriruet, s_drozhit, s_tryasetsya]
         then {s_vibratsiya} else {})
      \<union> (if list_ex (\<lambda>w. is_substr w text_lower) [s_shumit, s_gudit, s_skripit]
         then {s_shum} else {})
      \<union> (if list_ex (\<lambda>w. is_substr w text_lower) [s_peregrevaetsya, s_nagrevaetsya]
         then {s_peregrev} else {}))"

definition get_symptoms :: "analyzer \<Rightarrow> doc \<Rightarrow> error + pystr set" where
  "get_symptoms a d =
     (let s1 = set (map (\<lambda>e. lower (ent_text e)) (filter (\<lambda>e. ent_label e = ''SYMPTOM'') (ents d))) in
      case add_matches (\<lambda>w. match_term a (Some w) (symptoms a))
             (concat (map (\<lambda>t. [tok_text t, tok_lemma t]) (tokens d))) s1 of
        Inl e \<Rightarrow> Inl e
      | Inr s2 \<Rightarrow>
          (case add_matches
                  (\<lambda>t. case convert_verb_to_noun a (tok_text t) of
                          Inl e \<Rightarrow> Inl e
                        | Inr noun_form \<Rightarrow>
                            if truthy_opt noun_form then match_term a noun_form (symptoms a)
                            else Inr None)
                  (filter (\<lambda>t. tok_pos t \<in> set [''VERB'', ''ADJ'']) (tokens d)) s2 of
             Inl e \<Rightarrow> Inl e
           | Inr s3 \<Rightarrow>
               (case add_matches (\<lambda>w. match_term a (Some w) (symptoms a)) (phrases (tokens d)) s3 of
                  Inl e \<Rightarrow> Inl e
                | Inr s4 \<Rightarrow>
                    (let s6 = s4 \<union> sentence_symptoms a d \<union> extra_symptoms d in
                     Inr (if s6 = {} then {s_Simptomy_ne_opisany} else s6)))))"

section \<open>Fusion: \<open>analyze_text\<close>\<close>

text \<open>
  The dictionary \<open>ner_result\<close> of \<open>analyze_text\<close>. Its ninth entry,
  \<open>unknown_terms\<close>, is created empty, is never written and is dropped from the
  result: it is not a field here, and \<open>ner_values\<close> lists it as the empty list.
\<close>

record ner_result =
  ner_equipment :: "pystr list"
  ner_equipment_id :: "pystr list"
  ner_dates :: "pystr list"
  ner_error_codes :: "pystr list"
  ner_times :: "pystr list"
  ner_components :: "pystr list"
  ner_symptoms :: "pystr list"
  ner_actions :: "pystr list"

record failure_result =
  equipment_type :: pystr
  fr_components :: "pystr set"
  fr_symptoms :: "pystr set"
  urgency :: pystr
  timestamp :: pystr
  unknown_terms :: "pystr list"

record analysis =
  ner :: ner_result
  failure_analysis :: failure_result
  raw_text :: pystr
  success :: bool

definition ner_empty :: ner_result where
  "ner_empty =
     \<lparr>ner_equipment = [], ner_equipment_id = [], ner_dates = [], ner_error_codes = [],
      ner_times = [], ner_components = [], ner_symptoms = [], ner_actions = []\<rparr>"

definition ner_values :: "ner_result \<Rightarrow> pystr list list" where
  "ner_values r =
     [ner_equipment r, ner_equipment_id r, ner_dates r, ner_error_codes r, ner_times r,
      ner_components r, ner_symptoms r, ner_actions r, []]"

text \<open>
  \<^verbatim>\<open>
  ner_result["equipment"].append(s)
  id_part = ''.join(filter(str.isdigit, s))
  if id_part:
      ner_result["equipment_id"].append(id_part)
  \<close>
  for \<open>s\<close> the text of an entity (step 2) or of a token (step 3).
\<close>

definition add_equipment :: "ner_result \<Rightarrow> pystr \<Rightarrow> ner_result" where
  "add_equipment r s =
     (let r1 = r\<lparr>ner_equipment := ner_equipment r @ [s]\<rparr>;
          id_part = digits_of s
      in if truthy id_part then r1\<lparr>ner_equipment_id := ner_equipment_id r1 @ [id_part]\<rparr> else r1)"

text \<open>Step 2 of \<open>analyze_text\<close>: the body of \<open>for ent in doc.ents\<close>.\<close>

definition ner_step :: "ner_result \<Rightarrow> ent \<Rightarrow> ner_result" where
  "ner_step r e =
     (if ent_label e = ''EQUIPMENT'' then add_equipment r (ent_text e)
      else if ent_label e = ''DATE'' then r\<lparr>ner_dates := ner_dates r @ [ent_text e]\<rparr>
      else if ent_label e = ''ERROR_CODE'' then r\<lparr>ner_error_codes := ner_error_codes r @ [ent_text e]\<rparr>
      else if ent_label e = ''TIME'' then r\<lparr>ner_times := ner_times r @ [ent_text e]\<rparr>
      else if ent_label e = ''COMPONENT'' then r\<lparr>ner_components := ner_components r @ [ent_text e]\<rparr>
      else if ent_label e = ''SYMPTOM'' then r\<lparr>ner_symptoms := ner_symptoms r @ [ent_text e]\<rparr>
      else if ent_label e = ''ACTION'' then r\<lparr>ner_actions := ner_actions r @ [ent_text e]\<rparr>
      else r)"

text \<open>
  Step 3:
  \<^verbatim>\<open>
  if not ner_result["equipment"]:
      for token in doc:
          if (token.pos_ in ["NOUN", "PROPN"] and
                  any(c.isdigit() for c in token.text)):
              ner_result["equipment"].append(token.text)
              id_part = ''.join(filter(str.isdigit, token.text))
              if id_part:
                  ner_result["equipment_id"].append(id_part)
  \<close>
\<close>

definition pattern_step :: "ner_result \<Rightarrow> token \<Rightarrow> ner_result" where
  "pattern_step r t =
     (if tok_pos t \<in> set [''NOUN'', ''PROPN''] \<and> has_digit (tok_text t)
      then add_equipment r (tok_text t) else r)"

definition extract_ner :: "doc \<Rightarrow> ner_result" where
  "extract_ner d =
     (let r = foldl ner_step ner_empty (ents d) in
      if ner_equipment r = [] then foldl pattern_step r (tokens d) else r)"

text \<open>
  \<^verbatim>\<open>
  def _determine_equipment_type(self, doc, found_equipment):
      if found_equipment:
          for eq in found_equipment:
              for eq_type, variants in self.equipment_types.items():
                  if any(v.lower() in eq.lower() for v in [eq_type] + variants):
                      return eq_type.capitalize()
          return found_equipment[0].capitalize()
      for token in doc:
          eq_type = self._match_term(token.text, self.equipment_types)
          if eq_type:
              return eq_type.capitalize()
      for i, token in enumerate(doc[:-1]):
          if token.lemma_ in ["slomat'sya", "ostanovit'sya", "peregret'sya"]:
              next_token = doc[i + 1]
              if next_token.pos_ in ["NOUN", "PROPN"]:
                  return next_token.text.capitalize()
      return "Neizvestnoe oborudovanie"
  \<close>
\<close>

fun known_type_in :: "term_dict \<Rightarrow> pystr \<Rightarrow> pystr option" where
  "known_type_in [] eq = None"
| "known_type_in ((eq_type, variants) # rest) eq =
     (if list_ex (\<lambda>v. is_substr (lower v) (lower eq)) (eq_type # variants) then Some eq_type
      else known_type_in rest eq)"

fun known_type_of_found :: "term_dict \<Rightarrow> pystr list \<Rightarrow> pystr option" where
  "known_type_of_found td [] = None"
| "known_type_of_found td (eq # eqs) =
     (case known_type_in td eq of
        Some eq_type \<Rightarrow> Some eq_type
      | None \<Rightarrow> known_type_of_found td eqs)"

fun first_match :: "analyzer \<Rightarrow> term_dict \<Rightarrow> token list \<Rightarrow> error + pystr option" where
  "first_match a td [] = Inr None"
| "first_match a td (t # ts) =
     (case match_term a (Some (tok_text t)) td of
        Inl e \<Rightarrow> Inl e
      | Inr r \<Rightarrow> if truthy_opt r then Inr r else first_match a td ts)"

fun context_equipment :: "token list \<Rightarrow> pystr option" where
  "context_equipment (t # n # rest) =
     (if tok_lemma t \<in> set [s_slomatsya, s_ostanovitsya, s_peregretsya]
         \<and> tok_pos n \<in> set [''NOUN'', ''PROPN'']
      then Some (capitalize (tok_text n))
      else context_equipment (n # rest))"
| "context_equipment ts = None"

definition determine_equipment_type :: "analyzer \<Rightarrow> doc \<Rightarrow> pystr list \<Rightarrow> error + pystr" where
  "determine_equipment_type a d found_equipment =
     (case found_equipment of
        eq0 # _ \<Rightarrow>
          Inr (case known_type_of_found (equipment_types a) found_equipment of
                 Some eq_type \<Rightarrow> capitalize eq_type
               | None \<Rightarrow> capitalize eq0)
      | [] \<Rightarrow>
          (case first_match a (equipment_types a) (tokens d) of
             Inl e \<Rightarrow> Inl e
           | Inr (Some eq_type) \<Rightarrow> Inr (capitalize eq_type)
           | Inr None \<Rightarrow>
               Inr (case context_equipment (tokens d) of
                      Some s \<Rightarrow> s
                    | None \<Rightarrow> s_Neizvestnoe_oborudovanie)))"

text \<open>
  Step 4 of \<open>analyze_text\<close>:
  \<^verbatim>\<open>
  symptoms = set(ner_result["symptoms"])
  for token in doc:
      if token.pos_ == "VERB":
          noun_form = self._verb_to_symptom_noun(token.text)
          if noun_form:
              symptoms.add(noun_form)
  \<close>
  and steps 5 and 6:
  \<^verbatim>\<open>
  equipment_type = self._determine_equipment_type(doc, ner_result["equipment"])
  failure_result = {
      "equipment_type": equipment_type,
      "components": list(set(ner_result["components"] or self._get_components_from_dict(doc))),
      "symptoms": list(symptoms or self._get_symptoms_from_dict(doc)),
      "urgency": self._detect_urgency(doc),
      "timestamp": self._get_timestamp(doc),
      "unknown_terms": self._find_unknown_terms(doc)
  }
  return {
      "ner": {k: v for k, v in ner_result.items() if k != "unknown_terms"},
      "failure_analysis": failure_result,
      "raw_text": text,
      "success": any(ner_result.values())
  }
  \<close>
  \<open>now\<close> is the reading of the clock during the call.
\<close>

definition verb_symptoms :: "analyzer \<Rightarrow> doc \<Rightarrow> pystr set \<Rightarrow> error + pystr set" where
  "verb_symptoms a d acc =
     add_matches (\<lambda>t. verb_to_symptom_noun a (tok_text t))
       (filter (\<lambda>t. tok_pos t = ''VERB'') (tokens d)) acc"

definition analyze_text :: "analyzer \<Rightarrow> pystr \<Rightarrow> pystr \<Rightarrow> error + analysis" where
  "analyze_text a now text =
     (let d = nlp a text;
          nr = extract_ner d
      in case verb_symptoms a d (set (ner_symptoms nr)) of
           Inl e \<Rightarrow> Inl e
         | Inr symptoms_found \<Rightarrow>
             (case determine_equipment_type a d (ner_equipment nr) of
                Inl e \<Rightarrow> Inl e
              | Inr eq_type \<Rightarrow>
                  (case (if ner_components nr \<noteq> [] then Inr (set (ner_components nr))
                         else get_components_from_dict a d) of
                     Inl e \<Rightarrow> Inl e
                   | Inr comps \<Rightarrow>
                       (case (if symptoms_found \<noteq> {} then Inr symptoms_found
                              else get_symptoms_from_dict a d) of
                          Inl e \<Rightarrow> Inl e
                        | Inr syms \<Rightarrow>
                            Inr \<lparr>ner = nr,
                                 failure_analysis =
                                   \<lparr>equipment_type = eq_type,
                                    fr_components = comps,
                                    fr_symptoms = syms,
                                    urgency = detect_urgency d,
                                    timestamp = get_timestamp d now,
                                    unknown_terms = find_unknown_terms d\<rparr>,
                                 raw_text = text,
                                 success = list_ex (\<lambda>v. v \<noteq> []) (ner_values nr)\<rparr>))))"

text \<open>
  \<open>__init__\<close>: the analyzer with the dictionaries of the source, for a
  morphological analyzer (or \<open>None\<close>) and a pipeline. The constructor adds the
  sentencizer and the entity recognizer to the pipeline when they are missing.
\<close>

definition init_analyzer ::
  "(pystr \<Rightarrow> error + parse list) option \<Rightarrow> (pystr \<Rightarrow> doc) \<Rightarrow> string list \<Rightarrow> analyzer" where
  "init_analyzer m pipeline names =
     \<lparr>morph = m,
      nlp = pipeline,
      pipe_names =
        (let n1 = (if ''sentencizer'' \<in> set names then names else names @ [''sentencizer''])
         in if ''ner'' \<in> set n1 then n1 else n1 @ [''ner'']),
      equipment_types = equipment_types_init,
      components = components_init,
      symptoms = symptoms_init,
      actions = actions_init\<rparr>"


section \<open>Training\<close>

text \<open>
  \<^verbatim>\<open>
  def train_ner_model(self, train_data, output_dir="iiot_ner_model", n_iter=150):
      labels = set()
      for text, annots in train_data:
          for start, end, label in annots.get("entities", []):
              labels.add(label)
      for label in labels:
          self.ner.add_label(label)
      examples = []
      for text, annots in train_data:
          doc = self.nlp.make_doc(text)
          example = Example.from_dict(doc, annots)
          examples.append(example)
      random.shuffle(examples)
      train_examples = examples[:int(0.8 * len(examples))]
      eval_examples = examples[int(0.8 * len(examples)):]
      optimizer = self.nlp.begin_training()
      for itn in range(n_iter):
          losses = {}
          batches = minibatch(train_examples, size=compounding(4.0, 32.0, 1.1))
          for batch in batches:
              self.nlp.update(batch, drop=0.4, losses=losses, sgd=optimizer)
          correct = 0
          total = 0
          for eval_ex in eval_examples:
              doc = self.nlp(eval_ex.reference.text)
              gold_ents = {(e.start_char, e.end_char, e.label_) for e in eval_ex.reference.ents}
              pred_ents = {(e.start_char, e.end_char, e.label_) for e in doc.ents}
              correct += len(gold_ents & pred_ents)
              total += len(gold_ents)
          accuracy = correct / total if total > 0 else 0
          print(f"Iter {itn + 1}: Loss={losses['ner']:.3f}, Accuracy={accuracy:.2f}")
      self.nlp.to_disk(output_dir)
  \<close>
  The function has no \<open>try\<close>. What it changes is the pipeline in memory (its
  labels and its weights) and, by \<open>to_disk\<close>, the persisted models: this is the
  state \<open>trainer\<close>, with the persisted models a map from their location.

  The calls into spaCy are parameters (record \<open>spacy\<close>). Each may raise, and one
  that works on the pipeline in place gives the pipeline it leaves behind also
  when it raises:
  \<^item> \<open>from_dict\<close>: \<open>make_doc\<close> and \<open>Example.from_dict\<close> on a text and its spans;
  \<^item> \<open>draws\<close>: the random numbers \<open>random.shuffle\<close> draws;
  \<^item> \<open>begin_training\<close>: initialises the weights;
  \<^item> \<open>batch_size\<close>: the sizes \<open>compounding(4.0, 32.0, 1.1)\<close> yields, as
    \<open>minibatch\<close> rounds them;
  \<^item> \<open>update\<close>: takes the weights, a batch and the keys of \<open>losses\<close>, and
    gives the keys of \<open>losses\<close> afterwards (of the loss only its presence under
    the key \<open>ner\<close> is read);
  \<^item> \<open>predict\<close>: runs the pipeline on the text of an evaluation example and
    gives the number of gold entities it found and the number of gold entities;
  \<^item> \<open>to_disk\<close>: writes the weights at a location of the persisted models,
    and gives the persisted models it leaves behind, also when it raises.

  An element of the corpus is a text with its entity spans, or it is malformed:
  not iterable (unpacking it raises \<open>TypeError\<close>), an iterable that is not of
  length two (\<open>ValueError\<close>), or a pair whose second component has no \<open>get\<close>
  (\<open>AttributeError\<close>). The first loop raises at the first malformed element, so
  the second loop never meets one; its cases for them repeat that error.
  \<open>int(0.8 * n)\<close> is \<open>4 * n div 5\<close>, as it is for every \<open>n\<close> below \<open>2 ^ 50\<close>.
\<close>

datatype corpus_item =
  Item pystr "(nat \<times> nat \<times> string) list"
| NotIterable
| WrongLength
| NoDict pystr

fun unpack_error :: "corpus_item \<Rightarrow> error option" where
  "unpack_error (Item text entities) = None"
| "unpack_error NotIterable = Some TypeError"
| "unpack_error WrongLength = Some ValueError"
| "unpack_error (NoDict text) = Some AttributeError"

record ('w, 'ex) spacy =
  from_dict :: "pystr \<Rightarrow> (nat \<times> nat \<times> string) list \<Rightarrow> error + 'ex"
  draws :: "nat list"
  begin_training :: "'w \<Rightarrow> (error + unit) \<times> 'w"
  batch_size :: "nat \<Rightarrow> nat"
  update :: "'w \<Rightarrow> 'ex list \<Rightarrow> string set \<Rightarrow> (error + string set) \<times> 'w"
  predict :: "'w \<Rightarrow> 'ex \<Rightarrow> error + nat \<times> nat"
  to_disk :: "'w \<Rightarrow> string \<Rightarrow> (string \<rightharpoonup> 'w) \<Rightarrow> (error + unit) \<times> (string \<rightharpoonup> 'w)"

record 'w trainer =
  weights :: 'w
  ner_labels :: "string set"
  disk :: "string \<rightharpoonup> 'w"

fun collect_labels :: "corpus_item list \<Rightarrow> string set \<Rightarrow> error + string set" where
  "collect_labels [] labels = Inr labels"
| "collect_labels (Item text entities # rest) labels =
     collect_labels rest (labels \<union> set (map (\<lambda>(start, end, label). label) entities))"
| "collect_labels (NotIterable # rest) labels = Inl TypeError"
| "collect_labels (WrongLength # rest) labels = Inl ValueError"
| "collect_labels (NoDict text # rest) labels = Inl AttributeError"

fun make_examples :: "('w, 'ex) spacy \<Rightarrow> corpus_item list \<Rightarrow> 'ex list \<Rightarrow> error + 'ex list" where
  "make_examples sp [] examples = Inr examples"
| "make_examples sp (Item text entities # rest) examples =
     (case from_dict sp text entities of
        Inl e \<Rightarrow> Inl e
      | Inr example \<Rightarrow> make_examples sp rest (examples @ [example]))"
| "make_examples sp (NotIterable # rest) examples = Inl TypeError"
| "make_examples sp (WrongLength # rest) examples = Inl ValueError"
| "make_examples sp (NoDict text # rest) examples = Inl AttributeError"

text \<open>
  \<open>random.shuffle\<close>, as the permutation that the drawn numbers select: each
  number picks the next item among those not yet taken. Every permutation arises
  from some draws, and without draws the list stays as it is.
\<close>

function shuffle :: "nat list \<Rightarrow> 'a list \<Rightarrow> 'a list" where
  "shuffle rs [] = []"
| "shuffle [] (x # xs) = x # xs"
| "shuffle (r # rs) (x # xs) =
     (let i = r mod length (x # xs) in
      (x # xs) ! i # shuffle rs (take i (x # xs) @ drop (Suc i) (x # xs)))"
  by pat_completeness auto
termination
  by (relation "measure (\<lambda>(rs, xs). length rs)") auto

text \<open>
  spaCy's \<open>minibatch\<close>: it takes the next size from the generator, cuts that many
  items off, and stops at the first empty batch.
\<close>

function minibatch :: "(nat \<Rightarrow> nat) \<Rightarrow> nat \<Rightarrow> 'a list \<Rightarrow> 'a list list" where
  "minibatch sizes k items =
     (let batch = take (sizes k) items in
      if batch = [] then [] else batch # minibatch sizes (Suc k) (drop (sizes k) items))"
  by pat_completeness auto
termination
  by (relation "measure (\<lambda>(sizes, k, items). length items)") auto

declare minibatch.simps [simp del]

text \<open>
  The loop over the batches, the loop over the evaluation examples (\<open>n_gold\<close> is
  the counter \<open>total\<close> of the source), and the iterations.
\<close>

fun run_batches ::
  "('w, 'ex) spacy \<Rightarrow> 'w \<Rightarrow> 'ex list list \<Rightarrow> string set \<Rightarrow> (error + string set) \<times> 'w" where
  "run_batches sp w [] losses = (Inr losses, w)"
| "run_batches sp w (batch # batches) losses =
     (case update sp w batch losses of
        (Inl e, w') \<Rightarrow> (Inl e, w')
      | (Inr losses', w') \<Rightarrow> run_batches sp w' batches losses')"

fun run_eval :: "('w, 'ex) spacy \<Rightarrow> 'w \<Rightarrow> 'ex list \<Rightarrow> nat \<times> nat \<Rightarrow> error + nat \<times> nat" where
  "run_eval sp w [] (correct, n_gold) = Inr (correct, n_gold)"
| "run_eval sp w (eval_ex # rest) (correct, n_gold) =
     (case predict sp w eval_ex of
        Inl e \<Rightarrow> Inl e
      | Inr (found, gold) \<Rightarrow> run_eval sp w rest (correct + found, n_gold + gold))"

fun iterations ::
  "('w, 'ex) spacy \<Rightarrow> nat \<Rightarrow> 'ex list \<Rightarrow> 'ex list \<Rightarrow> 'w \<Rightarrow> (error + unit) \<times> 'w" where
  "iterations sp 0 train_examples eval_examples w = (Inr (), w)"
| "iterations sp (Suc n) train_examples eval_examples w =
     (case run_batches sp w (minibatch (batch_size sp) 0 train_examples) {} of
        (Inl e, w') \<Rightarrow> (Inl e, w')
      | (Inr losses, w') \<Rightarrow>
          (case run_eval sp w' eval_examples (0, 0) of
             Inl e \<Rightarrow> (Inl e, w')
           | Inr counts \<Rightarrow>
               if ''ner'' \<in> losses then iterations sp n train_examples eval_examples w'
               else (Inl KeyError, w')))"

definition train_ner_model ::
  "('w, 'ex) spacy \<Rightarrow> corpus_item list \<Rightarrow> string \<Rightarrow> nat \<Rightarrow> 'w trainer \<Rightarrow> (error + unit) \<times> 'w trainer" where
  "train_ner_model sp train_data output_dir n_iter s =
     (case collect_labels train_data {} of
        Inl e \<Rightarrow> (Inl e, s)
      | Inr labels \<Rightarrow>
          (let s1 = s\<lparr>ner_labels := ner_labels s \<union> labels\<rparr> in
           case make_examples sp train_data [] of
             Inl e \<Rightarrow> (Inl e, s1)
           | Inr examples0 \<Rightarrow>
               (let examples = shuffle (draws sp) examples0;
                    train_examples = take (4 * length examples div 5) examples;
                    eval_examples = drop (4 * length examples div 5) examples
                in case begin_training sp (weights s1) of
                     (Inl e, w0) \<Rightarrow> (Inl e, s1\<lparr>weights := w0\<rparr>)
                   | (Inr u, w0) \<Rightarrow>
                       (case iterations sp n_iter train_examples eval_examples w0 of
                          (Inl e, w) \<Rightarrow> (Inl e, s1\<lparr>weights := w\<rparr>)
                        | (Inr u', w) \<Rightarrow>
                            (case to_disk sp w output_dir (disk s1) of
                               (res, disk') \<Rightarrow> (res, s1\<lparr>weights := w, disk := disk'\<rparr>))))))"

text \<open>
  A stand-in for spaCy, for running the model on concrete inputs: the weights are
  a counter of the updates since the last initialisation, an annotated text is a
  valid example unless two of its spans overlap, the batches have
  four items, an update writes the loss under \<open>ner\<close>, the evaluation finds every
  gold entity, and \<open>to_disk\<close> writes the weights whole. \<open>trained_state\<close> is a
  pipeline with a model trained and saved before, and \<open>corpus5\<close> a corpus of five
  examples.
\<close>

fun overlapping :: "(nat \<times> nat \<times> string) list \<Rightarrow> bool" where
  "overlapping [] = False"
| "overlapping ((start, end, label) # rest) =
     (list_ex (\<lambda>(start', end', label'). start < end' \<and> start' < end) rest \<or> overlapping rest)"

definition spacy_stub :: "(nat, pystr) spacy" where
  "spacy_stub =
     \<lparr>from_dict = (\<lambda>text entities. if overlapping entities then Inl ValueError else Inr text),
      draws = [3, 1, 4, 1, 5],
      begin_training = (\<lambda>w. (Inr (), 0)),
      batch_size = (\<lambda>k. 4),
      update = (\<lambda>w batch losses. (Inr (insert ''ner'' losses), Suc w)),
      predict = (\<lambda>w example. Inr (1, 1)),
      to_disk = (\<lambda>w output_dir models. (Inr (), models(output_dir \<mapsto> w)))\<rparr>"

definition trained_state :: "nat trainer" where
  "trained_state = \<lparr>weights = 7, ner_labels = {''EQUIPMENT''}, disk = [''iiot_ner_model'' \<mapsto> 7]\<rparr>"

definition corpus5 :: "corpus_item list" where
  "corpus5 =
     [Item s_stanok_5 [(0, 8, ''EQUIPMENT'')],
      Item s_stanok [(0, 6, ''EQUIPMENT'')],
      Item s_shpindel [(0, 8, ''COMPONENT'')],
      Item s_stanok_vibriruet [(0, 6, ''EQUIPMENT''), (7, 16, ''SYMPTOM'')],
      Item s_profilaktika [(0, 12, ''ACTION'')]]"

text \<open>
  Stand-ins that fail: an initialisation that raises, an update that raises
  after it has changed the weights, an evaluation that raises, and a \<open>to_disk\<close>
  that raises after it has overwritten the model with an unfinished one.
\<close>

definition spacy_begin_fails :: "(nat, pystr) spacy" where
  "spacy_begin_fails = spacy_stub\<lparr>begin_training := (\<lambda>w. (Inl (LibraryError 1), w))\<rparr>"

definition spacy_update_fails :: "(nat, pystr) spacy" where
  "spacy_update_fails = spacy_stub\<lparr>update := (\<lambda>w batch losses. (Inl (LibraryError 12), Suc w))\<rparr>"

definition spacy_predict_fails :: "(nat, pystr) spacy" where
  "spacy_predict_fails = spacy_stub\<lparr>predict := (\<lambda>w example. Inl (LibraryError 109))\<rparr>"

definition spacy_disk_fails :: "(nat, pystr) spacy" where
  "spacy_disk_fails =
     spacy_stub\<lparr>to_disk := (\<lambda>w output_dir models. (Inl (LibraryError 28), models(output_dir \<mapsto> 0)))\<rparr>"

section \<open>Concrete pipelines and analyzers\<close>

text \<open>
  Stand-ins for the libraries, for running the model on concrete texts.
  \<open>blank_pipeline\<close> stands for \<open>spacy.blank("ru")\<close> with a sentencizer and a
  recognizer that has been initialised and has learned nothing: the tokens have
  no part of speech and no lemma, and there are no entities. (Before its
  recognizer is initialised, the pipeline \<open>__init__\<close> builds raises on every
  text.) The tokens are the words between spaces, where the tokenizer of spaCy
  also splits punctuation off, and the text is one sentence: the stand-in is for
  texts without punctuation.
  \<open>tagged_pipeline\<close> is a pipeline with a tagger: the same tokens, with the part
  of speech \<open>pos_of\<close> gives them and their lowercased text as lemma.
\<close>

fun split_words :: "pystr \<Rightarrow> pystr \<Rightarrow> pystr list" where
  "split_words [] cur = (if cur = [] then [] else [cur])"
| "split_words (c # cs) cur =
     (if c = 32 then (if cur = [] then split_words cs [] else cur # split_words cs [])
      else split_words cs (cur @ [c]))"

definition blank_pipeline :: "pystr \<Rightarrow> doc" where
  "blank_pipeline t =
     \<lparr>doc_text = t,
      tokens = map (\<lambda>w. \<lparr>tok_text = w, tok_pos = [], tok_lemma = []\<rparr>) (split_words t []),
      ents = [],
      sents = (if t = [] then [] else [t])\<rparr>"

definition pos_of :: "pystr \<Rightarrow> string" where
  "pos_of w = (if w = s_vibriruet then ''VERB'' else if has_digit w then ''NUM'' else ''NOUN'')"

definition tagged_pipeline :: "pystr \<Rightarrow> doc" where
  "tagged_pipeline t =
     \<lparr>doc_text = t,
      tokens = map (\<lambda>w. \<lparr>tok_text = w, tok_pos = pos_of w, tok_lemma = lower w\<rparr>) (split_words t []),
      ents = [],
      sents = (if t = [] then [] else [t])\<rparr>"

text \<open>
  \<open>morph_stub\<close> stands for a morphological analyzer: it knows the verb form
  "vibriruet" of "vibrirovat'", raises on the word "5", and takes every other word
  for a noun in its normal form.
\<close>

definition morph_stub :: "pystr \<Rightarrow> error + parse list" where
  "morph_stub w =
     (if w = s_vibriruet
      then Inr [\<lparr>tag = [''VERB'', ''impf'', ''intr'', ''sing'', ''3per'', ''pres'', ''indc''],
                 normal_form = s_vibrirovat,
                 lexeme = [\<lparr>form_tag = [''INFN'', ''impf'', ''intr''], form_word = s_vibrirovat\<rparr>,
                           \<lparr>form_tag = [''VERB'', ''impf'', ''intr'', ''sing'', ''3per'', ''pres'', ''indc''],
                            form_word = s_vibriruet\<rparr>]\<rparr>]
      else if w = s_5 then Inl (LibraryError 0)
      else Inr [\<lparr>tag = [''NOUN''], normal_form = lower w,
                 lexeme = [\<lparr>form_tag = [''NOUN''], form_word = lower w\<rparr>]\<rparr>])"

text \<open>
  The analyzer without a morphological analyzer on the untrained pipeline, the
  analyzer without a morphological analyzer on a pipeline with a tagger, and the
  analyzer with the stand-in morphological analyzer.
\<close>

definition analyzer_blank :: analyzer where
  "analyzer_blank = init_analyzer None blank_pipeline []"

definition analyzer_tagged :: analyzer where
  "analyzer_tagged = init_analyzer None tagged_pipeline [''tok2vec'', ''morphologizer'', ''ner'']"

definition analyzer_stub :: analyzer where
  "analyzer_stub = init_analyzer (Some morph_stub) blank_pipeline []"

text \<open>A capitalized form of the equipment variant "frezer", and the key "stanok" it resolves to.\<close>

abbreviation s_Frezer :: pystr where
  "s_Frezer \<equiv> [1060, 1088, 1077, 1079, 1077, 1088]"

abbreviation s_srochno_planovyj :: pystr where
  "s_srochno_planovyj \<equiv> [1089, 1088, 1086, 1095, 1085, 1086, 32, 1087, 1083, 1072, 1085, 1086, 1074, 1099, 1081]"


section \<open>Notions used in the statements\<close>

text \<open>
  The labels \<open>analyze_text\<close> reads, the texts of the entities with a label, the
  identifiers found in a list of equipment mentions (the digits of each mention
  that has any), and the tokens the pattern of step 3 takes for equipment.
  \<open>without_timestamp\<close> blanks the timestamp of a result.
\<close>

definition entity_labels :: "string list" where
  "entity_labels = [''EQUIPMENT'', ''DATE'', ''ERROR_CODE'', ''TIME'', ''COMPONENT'', ''SYMPTOM'', ''ACTION'']"

definition texts_labelled :: "string \<Rightarrow> ent list \<Rightarrow> pystr list" where
  "texts_labelled l es = map ent_text (filter (\<lambda>e. ent_label e = l) es)"

definition id_parts :: "pystr list \<Rightarrow> pystr list" where
  "id_parts xs = filter truthy (map digits_of xs)"

definition pattern_tokens :: "token list \<Rightarrow> pystr list" where
  "pattern_tokens ts = map tok_text (filter (\<lambda>t. tok_pos t \<in> set [''NOUN'', ''PROPN''] \<and> has_digit (tok_text t)) ts)"

text \<open>The first four fifths of the examples, on which the model is trained, and the rest.\<close>

definition train_part :: "'a list \<Rightarrow> 'a list" where
  "train_part examples = take (4 * length examples div 5) examples"

definition eval_part :: "'a list \<Rightarrow> 'a list" where
  "eval_part examples = drop (4 * length examples div 5) examples"

text \<open>An element of the corpus that is well-formed and from which spaCy builds an example.\<close>

definition builds :: "('w, 'ex) spacy \<Rightarrow> corpus_item \<Rightarrow> bool" where
  "builds sp x = (\<exists>text entities example. x = Item text entities \<and> from_dict sp text entities = Inr example)"


definition without_timestamp :: "analysis \<Rightarrow> analysis" where
  "without_timestamp r = r\<lparr>failure_analysis := (failure_analysis r)\<lparr>timestamp := []\<rparr>\<rparr>"

text \<open>
  A pipeline that finds the given entities in every text, over the tokens of the
  blank pipeline: a stand-in for a trained recognizer.
\<close>

definition with_ents :: "ent list \<Rightarrow> pystr \<Rightarrow> doc" where
  "with_ents es t = (blank_pipeline t)\<lparr>ents := es\<rparr>"

text \<open>
  The analyzer with the stand-in morphological analyzer and a recognizer that
  finds the equipment "stanok 5".
\<close>

definition analyzer_trained :: analyzer where
  "analyzer_trained =
     init_analyzer (Some morph_stub)
       (with_ents [\<lparr>ent_text = s_stanok_5, ent_label = ''EQUIPMENT''\<rparr>]) []"

text \<open>Two readings of the clock, "03.11.2026 10:30" and "03.11.2026 10:31".\<close>

abbreviation s_now :: pystr where
  "s_now \<equiv> [48, 51, 46, 49, 49, 46, 50, 48, 50, 54, 32, 49, 48, 58, 51, 48]"

abbreviation s_later :: pystr where
  "s_later \<equiv> [48, 51, 46, 49, 49, 46, 50, 48, 50, 54, 32, 49, 48, 58, 51, 49]"

section \<open>Evaluation on the concrete analyzers\<close>

lemma isdigit_below:
  "c < 1632 \<Longrightarrow> isdigit c \<longleftrightarrow> (48 \<le> c \<and> c \<le> 57) \<or> c = 178 \<or> c = 179 \<or> c = 185"
  unfolding isdigit_def digit_ranges_def by (simp add: list_ex_iff) arith

lemma lower_Cons: "lower (c # cs) = lower_cp c # lower cs"
  by (simp add: lower_def)

lemma lower_Nil: "lower [] = []"
  by (simp add: lower_def)

lemma morph_blank: "morph analyzer_blank = None"
  by (simp add: analyzer_blank_def init_analyzer_def)

lemma morph_stub_an: "morph analyzer_stub = Some morph_stub"
  by (simp add: analyzer_stub_def init_analyzer_def)

lemma normalize_blank: "normalize_word analyzer_blank w = Inr (lower w)"
  by (simp add: normalize_word_def morph_blank truthy_def lower_def)

section \<open>Strings\<close>

lemma starts_with_iff: "starts_with w t \<longleftrightarrow> (\<exists>s. t = w @ s)"
  by (induction w t rule: starts_with.induct) auto

lemma is_substr_iff: "is_substr w t \<longleftrightarrow> (\<exists>p s. t = p @ w @ s)"
proof (induction t)
  case Nil
  then show ?case by auto
next
  case (Cons c t)
  show ?case
  proof
    assume "is_substr w (c # t)"
    then consider "starts_with w (c # t)" | "is_substr w t" by auto
    then show "\<exists>p s. c # t = p @ w @ s"
    proof cases
      case 1
      then obtain s where "c # t = w @ s" using starts_with_iff by blast
      then have "c # t = [] @ w @ s" by simp
      then show ?thesis by blast
    next
      case 2
      then obtain p s where "t = p @ w @ s" using Cons.IH by blast
      then have "c # t = (c # p) @ w @ s" by simp
      then show ?thesis by blast
    qed
  next
    assume "\<exists>p s. c # t = p @ w @ s"
    then obtain p s where ps: "c # t = p @ w @ s" by blast
    show "is_substr w (c # t)"
    proof (cases p)
      case Nil
      with ps have "starts_with w (c # t)" using starts_with_iff by fastforce
      then show ?thesis by simp
    next
      case (Cons c' p')
      with ps have "t = p' @ w @ s" by simp
      then have "is_substr w t" using Cons.IH by blast
      then show ?thesis by simp
    qed
  qed
qed

lemma is_substr_map: "is_substr w t \<Longrightarrow> is_substr (map f w) (map f t)"
  unfolding is_substr_iff by (metis map_append)

lemma is_substr_lower: "is_substr w t \<Longrightarrow> is_substr (lower w) (lower t)"
  unfolding lower_def by (rule is_substr_map)

lemma urgency_loop_words:
  "urgency_loop urgency_words t =
     (if \<exists>w \<in> set high_urgency_words. is_substr w t then Some s_Vysokaya
      else if \<exists>w \<in> set low_urgency_words. is_substr w t then Some s_Nizkaya
      else None)"
  by (simp add: urgency_words_def list_ex_iff capitalize_def upper_cp_def lower_def lower_cp_def)

text \<open>
  Claim C3. \<open>_detect_urgency\<close> scans the lowercased text of the document for the
  high-urgency keywords first and for the low-urgency keywords second: the result
  is "Vysokaya" (high) as soon as a high-urgency keyword occurs in it, whether or
  not a low-urgency keyword occurs too, "Nizkaya" (low) when only a low-urgency
  keyword occurs, and "Srednyaya" (medium) when none does. A text that contains
  both "srochno" and "planovyj" is classified high, by this analyzer and by the
  older one of \<open>NLP_with_spaCy.py\<close>.
\<close>

theorem detect_urgency_high_before_low:
  "detect_urgency d =
     (if \<exists>w \<in> set high_urgency_words. is_substr w (lower (doc_text d)) then s_Vysokaya
      else if \<exists>w \<in> set low_urgency_words. is_substr w (lower (doc_text d)) then s_Nizkaya
      else s_Srednyaya)
   \<and> efa_detect_urgency d =
     (if \<exists>w \<in> set efa_high_urgency_words. is_substr w (lower (doc_text d)) then s_Vysokaya
      else if is_substr s_neznachitelnyj (lower (doc_text d)) then s_Nizkaya
      else s_Srednyaya)
   \<and> (is_substr s_srochno (doc_text d) \<and> is_substr s_planovyj (doc_text d)
        \<longrightarrow> detect_urgency d = s_Vysokaya \<and> efa_detect_urgency d = s_Vysokaya)"
proof -
  have char: "detect_urgency d =
     (if \<exists>w \<in> set high_urgency_words. is_substr w (lower (doc_text d)) then s_Vysokaya
      else if \<exists>w \<in> set low_urgency_words. is_substr w (lower (doc_text d)) then s_Nizkaya
      else s_Srednyaya)"
    by (simp add: detect_urgency_def urgency_loop_words)
  have efa: "efa_detect_urgency d =
     (if \<exists>w \<in> set efa_high_urgency_words. is_substr w (lower (doc_text d)) then s_Vysokaya
      else if is_substr s_neznachitelnyj (lower (doc_text d)) then s_Nizkaya
      else s_Srednyaya)"
    by (simp add: efa_detect_urgency_def Let_def list_ex_iff)
  have low: "lower s_srochno = s_srochno"
    by (simp add: lower_def lower_cp_def)
  have part: "detect_urgency d = s_Vysokaya \<and> efa_detect_urgency d = s_Vysokaya"
    if "is_substr s_srochno (doc_text d)"
  proof -
    from that have sub: "is_substr s_srochno (lower (doc_text d))"
      using is_substr_lower [of s_srochno "doc_text d"] low by simp
    then have "\<exists>w \<in> set high_urgency_words. is_substr w (lower (doc_text d))"
      by (auto simp: high_urgency_words_def)
    with char have "detect_urgency d = s_Vysokaya" by simp
    moreover from sub have "\<exists>w \<in> set efa_high_urgency_words. is_substr w (lower (doc_text d))"
      by (auto simp: efa_high_urgency_words_def)
    with efa have "efa_detect_urgency d = s_Vysokaya" by simp
    ultimately show ?thesis by simp
  qed
  from char efa part show ?thesis by blast
qed

theorem detect_urgency_high_before_low_witness:
  "is_substr s_srochno (doc_text (blank_pipeline s_srochno_planovyj))
   \<and> is_substr s_planovyj (doc_text (blank_pipeline s_srochno_planovyj))
   \<and> detect_urgency (blank_pipeline s_srochno_planovyj) = s_Vysokaya
   \<and> efa_detect_urgency (blank_pipeline s_srochno_planovyj) = s_Vysokaya"
proof -
  have h: "is_substr s_srochno (doc_text (blank_pipeline s_srochno_planovyj))
   \<and> is_substr s_planovyj (doc_text (blank_pipeline s_srochno_planovyj))"
    by (simp add: blank_pipeline_def)
  with detect_urgency_high_before_low [of "blank_pipeline s_srochno_planovyj"]
  show ?thesis by blast
qed

section \<open>The normalizer and the matcher\<close>

lemma normalize_word_total: "\<exists>s. normalize_word a w = Inr s"
  by (simp add: normalize_word_def split: option.split sum.split)

text \<open>
  Claim C4. \<open>_normalize\<close> never raises: it returns a string for every analyzer
  and every word. Without a morphological analyzer, and when the analysis raises
  (or gives no parse, so that the subscript raises), the result is the lowercased
  word; for the empty word it is the empty string.
\<close>

theorem normalize_word_never_raises:
  "(\<exists>s. normalize_word a w = Inr s)
   \<and> (morph a = None \<longrightarrow> normalize_word a w = Inr (lower w))
   \<and> (\<forall>parse_fn e. morph a = Some parse_fn \<and> parse_fn w = Inl e \<longrightarrow> normalize_word a w = Inr (lower w))
   \<and> (\<forall>parse_fn. morph a = Some parse_fn \<and> parse_fn w = Inr [] \<longrightarrow> normalize_word a w = Inr (lower w))
   \<and> normalize_word a [] = Inr []"
  by (auto simp: normalize_word_def truthy_def lower_def subscript0_def split: option.split sum.split)

theorem normalize_word_never_raises_witness:
  "normalize_word analyzer_blank s_Stanok = Inr s_stanok
   \<and> normalize_word analyzer_stub s_5 = Inr s_5
   \<and> normalize_word analyzer_stub [] = Inr []"
proof -
  have l1: "lower s_Stanok = s_stanok" by (simp add: lower_def lower_cp_def)
  have l2: "lower s_5 = s_5" by (simp add: lower_def lower_cp_def)
  have r: "morph_stub s_5 = Inl (LibraryError 0)" by (simp add: morph_stub_def)
  from normalize_word_never_raises [of analyzer_blank s_Stanok] morph_blank l1
  have "normalize_word analyzer_blank s_Stanok = Inr s_stanok" by simp
  moreover from normalize_word_never_raises [of analyzer_stub s_5] morph_stub_an r l2
  have "normalize_word analyzer_stub s_5 = Inr s_5" by simp
  moreover from normalize_word_never_raises [of analyzer_stub s_5]
  have "normalize_word analyzer_stub [] = Inr []" by simp
  ultimately show ?thesis by simp
qed

lemma any_variant_char:
  "any_variant a n vs = Inr (\<exists>v \<in> set vs. normalize_word a (lower v) = Inr n)"
proof (induction vs)
  case Nil
  then show ?case by simp
next
  case (Cons v vs)
  obtain nv where nv: "normalize_word a (lower v) = Inr nv"
    using normalize_word_total by blast
  with Cons show ?case by auto
qed

lemma match_loop_find:
  "match_loop a n d = Inr (map_option fst (find (entry_matches a n) d))"
proof (induction d)
  case Nil
  then show ?case by simp
next
  case (Cons entry d)
  obtain key variants where entry: "entry = (key, variants)" by (cases entry)
  show ?case
    using Cons by (simp add: entry any_variant_char entry_matches_def)
qed

text \<open>
  Claim C6. For a string \<open>t\<close> and a dictionary \<open>d\<close>, \<open>_match_term\<close> lowercases
  and normalizes \<open>t\<close> and returns the key of the first entry of \<open>d\<close>, in
  definition order, whose key is equal to the normalized input or one of whose
  variants, lowercased and then normalized, is: the entry at the least index that
  matches. It returns \<open>None\<close> exactly when no entry matches.
\<close>

theorem match_term_first_match:
  "\<exists>n. normalize_word a (lower t) = Inr n
     \<and> match_term a (Some t) d = Inr (map_option fst (find (entry_matches a n) d))
     \<and> (match_term a (Some t) d = Inr None \<longleftrightarrow> \<not> (\<exists>entry \<in> set d. entry_matches a n entry))
     \<and> (\<forall>k. match_term a (Some t) d = Inr (Some k) \<longleftrightarrow>
            (\<exists>i < length d. fst (d ! i) = k \<and> entry_matches a n (d ! i)
               \<and> (\<forall>j < i. \<not> entry_matches a n (d ! j))))"
proof -
  obtain n where n: "normalize_word a (lower t) = Inr n"
    using normalize_word_total by blast
  have m: "match_term a (Some t) d = Inr (map_option fst (find (entry_matches a n) d))"
    by (simp add: match_term_def n match_loop_find)
  have none: "match_term a (Some t) d = Inr None \<longleftrightarrow> \<not> (\<exists>entry \<in> set d. entry_matches a n entry)"
    by (auto simp: m find_None_iff)
  have some: "match_term a (Some t) d = Inr (Some k) \<longleftrightarrow>
            (\<exists>i < length d. fst (d ! i) = k \<and> entry_matches a n (d ! i)
               \<and> (\<forall>j < i. \<not> entry_matches a n (d ! j)))" for k
  proof
    assume "match_term a (Some t) d = Inr (Some k)"
    with m have "map_option fst (find (entry_matches a n) d) = Some k" by simp
    then obtain entry where e: "find (entry_matches a n) d = Some entry" "fst entry = k"
      unfolding map_option_eq_Some by blast
    then show "\<exists>i < length d. fst (d ! i) = k \<and> entry_matches a n (d ! i)
               \<and> (\<forall>j < i. \<not> entry_matches a n (d ! j))"
      unfolding find_Some_iff by blast
  next
    assume "\<exists>i < length d. fst (d ! i) = k \<and> entry_matches a n (d ! i)
               \<and> (\<forall>j < i. \<not> entry_matches a n (d ! j))"
    then obtain i where i: "i < length d" "fst (d ! i) = k" "entry_matches a n (d ! i)"
      "\<forall>j < i. \<not> entry_matches a n (d ! j)" by blast
    then have "find (entry_matches a n) d = Some (d ! i)"
      unfolding find_Some_iff by blast
    with m i show "match_term a (Some t) d = Inr (Some k)" by simp
  qed
  from n m none some show ?thesis by blast
qed

theorem match_term_first_match_witness:
  "match_term analyzer_blank (Some s_Frezer) equipment_types_init = Inr (Some s_stanok)
   \<and> match_term analyzer_blank (Some s_5) equipment_types_init = Inr None"
proof -
  obtain n where n: "normalize_word analyzer_blank (lower s_Frezer) = Inr n"
    and m: "match_term analyzer_blank (Some s_Frezer) equipment_types_init =
              Inr (map_option fst (find (entry_matches analyzer_blank n) equipment_types_init))"
    using match_term_first_match [of analyzer_blank s_Frezer equipment_types_init] by blast
  from n have n': "n = [1092, 1088, 1077, 1079, 1077, 1088]"
    by (simp add: normalize_blank lower_Cons lower_Nil lower_cp_def)
  have "match_term analyzer_blank (Some s_Frezer) equipment_types_init = Inr (Some s_stanok)"
    unfolding m n'
    by (simp add: equipment_types_init_def entry_matches_def normalize_blank lower_Cons lower_Nil lower_cp_def)
  moreover
  obtain n5 where n5: "normalize_word analyzer_blank (lower s_5) = Inr n5"
    and m5: "match_term analyzer_blank (Some s_5) equipment_types_init =
              Inr (map_option fst (find (entry_matches analyzer_blank n5) equipment_types_init))"
    using match_term_first_match [of analyzer_blank s_5 equipment_types_init] by blast
  from n5 have n5': "n5 = s_5"
    by (simp add: normalize_blank lower_Cons lower_Nil lower_cp_def)
  have "match_term analyzer_blank (Some s_5) equipment_types_init = Inr None"
    unfolding m5 n5'
    by (simp add: equipment_types_init_def entry_matches_def normalize_blank lower_Cons lower_Nil lower_cp_def)
  ultimately show ?thesis by simp
qed

lemma match_term_total:
  "\<exists>r. match_term a inp d = Inr r \<and> (case r of None \<Rightarrow> True | Some k \<Rightarrow> k \<in> fst ` set d)"
proof (cases inp)
  case None
  then show ?thesis by (simp add: match_term_def)
next
  case (Some t)
  obtain n where n: "normalize_word a (lower t) = Inr n"
    using normalize_word_total by blast
  have m: "match_term a (Some t) d = Inr (map_option fst (find (entry_matches a n) d))"
    by (simp add: match_term_def n match_loop_find)
  show ?thesis
  proof (cases "find (entry_matches a n) d")
    case None
    with m Some show ?thesis by simp
  next
    case (Some entry)
    then have "entry \<in> set d" unfolding find_Some_iff by auto
    with m Some \<open>inp = Some t\<close> show ?thesis by simp
  qed
qed

lemma convert_verb_to_noun_total: "\<exists>r. convert_verb_to_noun a w = Inr r"
  by (simp add: convert_verb_to_noun_def split: sum.split)

text \<open>
  Claim C10. \<open>_match_term\<close> is total: for \<open>None\<close> it returns \<open>None\<close>, and for
  every string, the empty one included, it returns \<open>None\<close> or a key of the
  dictionary, without raising. The same holds on what \<open>_convert_verb_to_noun\<close>
  returns, which is \<open>None\<close> for the empty word and never raises.
\<close>

theorem match_term_total_at_boundary:
  "match_term a None d = Inr None
   \<and> (\<exists>r. match_term a (Some t) d = Inr r \<and> (r = None \<or> r \<in> Some ` fst ` set d))
   \<and> (\<exists>word r. convert_verb_to_noun a w = Inr word \<and> match_term a word d = Inr r
         \<and> (r = None \<or> r \<in> Some ` fst ` set d))
   \<and> convert_verb_to_noun a [] = Inr None"
proof -
  have tot: "\<exists>r. match_term a inp d = Inr r \<and> (r = None \<or> r \<in> Some ` fst ` set d)" for inp
  proof -
    obtain r where r: "match_term a inp d = Inr r"
      "case r of None \<Rightarrow> True | Some k \<Rightarrow> k \<in> fst ` set d"
      using match_term_total [of a inp d] by blast
    then have "r = None \<or> r \<in> Some ` fst ` set d" by (cases r) auto
    with r show ?thesis by blast
  qed
  obtain word where w: "convert_verb_to_noun a w = Inr word"
    using convert_verb_to_noun_total by blast
  have "match_term a None d = Inr None" by (simp add: match_term_def)
  moreover have "convert_verb_to_noun a [] = Inr None"
    by (simp add: convert_verb_to_noun_def truthy_def)
  ultimately show ?thesis using tot [of "Some t"] tot [of word] w by blast
qed

theorem match_term_total_at_boundary_witness:
  "match_term analyzer_blank None components_init = Inr None
   \<and> match_term analyzer_blank (Some []) components_init = Inr None
   \<and> convert_verb_to_noun analyzer_blank [] = Inr None"
proof -
  have "match_term analyzer_blank (Some []) components_init = Inr None"
    by (simp add: match_term_def normalize_blank lower_Cons lower_Nil lower_cp_def components_init_def)
  with match_term_total_at_boundary [of analyzer_blank components_init "[]" "[]"]
  show ?thesis by simp
qed

section \<open>The entities and the fused result\<close>

lemma foldl_ner_step:
  "foldl ner_step r es =
     \<lparr>ner_equipment = ner_equipment r @ texts_labelled ''EQUIPMENT'' es,
      ner_equipment_id = ner_equipment_id r @ id_parts (texts_labelled ''EQUIPMENT'' es),
      ner_dates = ner_dates r @ texts_labelled ''DATE'' es,
      ner_error_codes = ner_error_codes r @ texts_labelled ''ERROR_CODE'' es,
      ner_times = ner_times r @ texts_labelled ''TIME'' es,
      ner_components = ner_components r @ texts_labelled ''COMPONENT'' es,
      ner_symptoms = ner_symptoms r @ texts_labelled ''SYMPTOM'' es,
      ner_actions = ner_actions r @ texts_labelled ''ACTION'' es\<rparr>"
proof (induction es arbitrary: r)
  case Nil
  then show ?case by (simp add: texts_labelled_def id_parts_def)
next
  case (Cons e es)
  show ?case
    unfolding foldl_Cons Cons.IH
    by (simp add: ner_step_def add_equipment_def Let_def texts_labelled_def id_parts_def)
qed

lemma foldl_pattern_step:
  "foldl pattern_step r ts =
     r\<lparr>ner_equipment := ner_equipment r @ pattern_tokens ts,
       ner_equipment_id := ner_equipment_id r @ id_parts (pattern_tokens ts)\<rparr>"
proof (induction ts arbitrary: r)
  case Nil
  then show ?case by (simp add: pattern_tokens_def id_parts_def)
next
  case (Cons t ts)
  show ?case
    unfolding foldl_Cons Cons.IH
    by (simp add: pattern_step_def add_equipment_def Let_def pattern_tokens_def id_parts_def)
qed

lemma extract_ner_fields:
  "extract_ner d =
     (let eq = (if texts_labelled ''EQUIPMENT'' (ents d) = [] then pattern_tokens (tokens d)
                else texts_labelled ''EQUIPMENT'' (ents d)) in
      \<lparr>ner_equipment = eq,
       ner_equipment_id = id_parts eq,
       ner_dates = texts_labelled ''DATE'' (ents d),
       ner_error_codes = texts_labelled ''ERROR_CODE'' (ents d),
       ner_times = texts_labelled ''TIME'' (ents d),
       ner_components = texts_labelled ''COMPONENT'' (ents d),
       ner_symptoms = texts_labelled ''SYMPTOM'' (ents d),
       ner_actions = texts_labelled ''ACTION'' (ents d)\<rparr>)"
  by (simp add: extract_ner_def Let_def foldl_ner_step foldl_pattern_step ner_empty_def id_parts_def)

lemma texts_labelled_empty: "texts_labelled l es = [] \<longleftrightarrow> \<not> (\<exists>e \<in> set es. ent_label e = l)"
  by (auto simp: texts_labelled_def filter_empty_conv)

lemma pattern_tokens_empty:
  "pattern_tokens ts = [] \<longleftrightarrow>
     \<not> (\<exists>t \<in> set ts. tok_pos t \<in> set [''NOUN'', ''PROPN''] \<and> has_digit (tok_text t))"
  by (auto simp: pattern_tokens_def filter_empty_conv)

lemma id_parts_nonempty_imp: "id_parts xs \<noteq> [] \<Longrightarrow> xs \<noteq> []"
  by (auto simp: id_parts_def)

lemma success_extract_ner:
  "list_ex (\<lambda>v. v \<noteq> []) (ner_values (extract_ner d)) \<longleftrightarrow>
     (\<exists>e \<in> set (ents d). ent_label e \<in> set entity_labels)
     \<or> (\<exists>t \<in> set (tokens d). tok_pos t \<in> set [''NOUN'', ''PROPN''] \<and> has_digit (tok_text t))"
proof -
  have "list_ex (\<lambda>v. v \<noteq> []) (ner_values (extract_ner d)) \<longleftrightarrow>
     (\<exists>l \<in> set entity_labels. texts_labelled l (ents d) \<noteq> []) \<or> pattern_tokens (tokens d) \<noteq> []"
    using id_parts_nonempty_imp
    by (auto simp: extract_ner_fields ner_values_def Let_def entity_labels_def)
  then show ?thesis
    unfolding texts_labelled_empty pattern_tokens_empty by blast
qed

lemma analyze_text_Inr:
  assumes "analyze_text a now text = Inr r"
  shows "ner r = extract_ner (nlp a text)"
    and "success r = list_ex (\<lambda>v. v \<noteq> []) (ner_values (extract_ner (nlp a text)))"
    and "raw_text r = text"
    and "timestamp (failure_analysis r) = get_timestamp (nlp a text) now"
    and "urgency (failure_analysis r) = detect_urgency (nlp a text)"
    and "unknown_terms (failure_analysis r) = find_unknown_terms (nlp a text)"
  using assms
  by (auto simp: analyze_text_def Let_def split: sum.splits if_splits)

lemma blank_fields:
  "nlp analyzer_blank = blank_pipeline"
  "equipment_types analyzer_blank = equipment_types_init"
  "components analyzer_blank = components_init"
  "symptoms analyzer_blank = symptoms_init"
  by (simp_all add: analyzer_blank_def init_analyzer_def)

lemma match_term_blank:
  "match_term analyzer_blank (Some t) d = match_loop analyzer_blank (lower (lower t)) d"
  by (simp add: match_term_def normalize_blank)

lemmas eval_simps = lower_Cons lower_Nil lower_cp_def normalize_blank truthy_def truthy_opt_def

lemma doc_shpindel:
  "blank_pipeline s_shpindel =
     \<lparr>doc_text = s_shpindel,
      tokens = [\<lparr>tok_text = s_shpindel, tok_pos = [], tok_lemma = []\<rparr>],
      ents = [], sents = [s_shpindel]\<rparr>"
  by (simp add: blank_pipeline_def)

lemma shpindel_equipment:
  "match_term analyzer_blank (Some s_shpindel) equipment_types_init = Inr None"
  by (simp add: match_term_blank equipment_types_init_def eval_simps)

lemma shpindel_component:
  "match_term analyzer_blank (Some s_shpindel) components_init = Inr (Some s_shpindel)"
  by (simp add: match_term_blank components_init_def eval_simps)

lemma shpindel_symptom:
  "match_term analyzer_blank (Some s_shpindel) symptoms_init = Inr None"
  by (simp add: match_term_blank symptoms_init_def eval_simps)

lemma urgency_loop_none:
  "urgency_loop urgency_words t = None \<longleftrightarrow>
     \<not> (\<exists>w \<in> set (high_urgency_words @ low_urgency_words). is_substr w t)"
  by (auto simp: urgency_loop_words)

lemma urgency_shpindel: "detect_urgency (blank_pipeline s_shpindel) = s_Srednyaya"
  by (simp add: detect_urgency_def urgency_loop_words doc_shpindel high_urgency_words_def
      low_urgency_words_def eval_simps)

lemma ner_empty_fields:
  "ner_symptoms ner_empty = []" "ner_components ner_empty = []" "ner_equipment ner_empty = []"
  "list_ex (\<lambda>v. v \<noteq> []) (ner_values ner_empty) = False"
  by (simp_all add: ner_empty_def ner_values_def)

lemma analyze_blank_shpindel:
  "analyze_text analyzer_blank s_now s_shpindel =
   Inr \<lparr>ner = ner_empty,
        failure_analysis =
          \<lparr>equipment_type = s_Neizvestnoe_oborudovanie,
           fr_components = {s_shpindel},
           fr_symptoms = {s_Simptomy_ne_opisany},
           urgency = s_Srednyaya,
           timestamp = s_now,
           unknown_terms = []\<rparr>,
        raw_text = s_shpindel,
        success = False\<rparr>"
proof -
  let ?d = "blank_pipeline s_shpindel"
  have ner: "extract_ner ?d = ner_empty"
    by (simp add: doc_shpindel extract_ner_def ner_empty_def pattern_step_def)
  have vs: "verb_symptoms analyzer_blank ?d {} = Inr {}"
    by (simp add: doc_shpindel verb_symptoms_def)
  have et: "determine_equipment_type analyzer_blank ?d [] = Inr s_Neizvestnoe_oborudovanie"
    by (simp add: doc_shpindel determine_equipment_type_def blank_fields shpindel_equipment truthy_opt_def)
  have gc: "get_components_from_dict analyzer_blank ?d = Inr {s_shpindel}"
    by (simp add: doc_shpindel get_components_from_dict_def blank_fields shpindel_component truthy_def)
  have gs: "get_symptoms_from_dict analyzer_blank ?d = Inr {s_Simptomy_ne_opisany}"
    by (simp add: doc_shpindel get_symptoms_from_dict_def blank_fields shpindel_symptom)
  have ts: "get_timestamp ?d s_now = s_now"
    by (simp add: doc_shpindel get_timestamp_def)
  have un: "find_unknown_terms ?d = []"
    by (simp add: doc_shpindel find_unknown_terms_def)
  show ?thesis
    by (simp add: analyze_text_def blank_fields Let_def ner ner_empty_fields vs et gc gs ts un urgency_shpindel)
qed

text \<open>
  Claim C1, as amended. When \<open>analyze_text\<close> returns, \<open>success\<close> is true exactly
  when the recognizer found an entity labelled EQUIPMENT, DATE, ERROR_CODE, TIME,
  COMPONENT, SYMPTOM or ACTION, or a token tagged NOUN or PROPN contains a digit
  (the equipment pattern of step 3). What the dictionaries find for
  \<open>failure_analysis\<close> does not enter it.
\<close>

theorem success_iff_entities_found:
  "analyze_text a now text = Inr r \<Longrightarrow>
     success r \<longleftrightarrow>
       (\<exists>e \<in> set (ents (nlp a text)). ent_label e \<in> set entity_labels)
       \<or> (\<exists>t \<in> set (tokens (nlp a text)).
             tok_pos t \<in> set [''NOUN'', ''PROPN''] \<and> has_digit (tok_text t))"
  using analyze_text_Inr(2) [of a now "text" r] success_extract_ner [of "nlp a text"] by simp

text \<open>
  The claim as stated fails: on the text "shpindel'" the dictionary finds the
  component "shpindel'", a non-empty result of the rule-based extractor, and
  \<open>success\<close> is false.
\<close>

theorem success_ignores_dictionary_matches:
  "analyze_text analyzer_blank s_now s_shpindel =
   Inr \<lparr>ner = ner_empty,
        failure_analysis =
          \<lparr>equipment_type = s_Neizvestnoe_oborudovanie,
           fr_components = {s_shpindel},
           fr_symptoms = {s_Simptomy_ne_opisany},
           urgency = s_Srednyaya,
           timestamp = s_now,
           unknown_terms = []\<rparr>,
        raw_text = s_shpindel,
        success = False\<rparr>"
  by (rule analyze_blank_shpindel)

lemma tagged_fields:
  "nlp analyzer_tagged = tagged_pipeline"
  "morph analyzer_tagged = None"
  by (simp_all add: analyzer_tagged_def init_analyzer_def)

lemma doc_stanok_vibriruet:
  "tagged_pipeline s_stanok_vibriruet =
     \<lparr>doc_text = s_stanok_vibriruet,
      tokens = [\<lparr>tok_text = s_stanok, tok_pos = ''NOUN'', tok_lemma = s_stanok\<rparr>,
                \<lparr>tok_text = s_vibriruet, tok_pos = ''VERB'', tok_lemma = s_vibriruet\<rparr>],
      ents = [], sents = [s_stanok_vibriruet]\<rparr>"
  by (simp add: tagged_pipeline_def pos_of_def has_digit_def isdigit_below lower_Cons lower_Nil lower_cp_def)

text \<open>
  Claim C2 at its failing input. The analyzer has no morphological analyzer
  (\<open>__init__\<close> caught its failure and went on) and the pipeline tags the second
  token of "stanok vibriruet" as a verb: \<open>_verb_to_symptom_noun\<close> calls
  \<open>self.morph.parse\<close> without the guard of \<open>_normalize\<close> and without the
  \<open>try\<close> of \<open>_convert_verb_to_noun\<close>, and \<open>analyze_text\<close> raises.
\<close>

theorem analyze_text_raises_without_morph:
  "analyze_text analyzer_tagged s_now s_stanok_vibriruet = Inl AttributeError"
  by (simp add: analyze_text_def Let_def tagged_fields doc_stanok_vibriruet verb_symptoms_def
      verb_to_symptom_noun_def)

lemma trained_fields:
  "nlp analyzer_trained = with_ents [\<lparr>ent_text = s_stanok_5, ent_label = ''EQUIPMENT''\<rparr>]"
  "morph analyzer_trained = Some morph_stub"
  "equipment_types analyzer_trained = equipment_types_init"
  "components analyzer_trained = components_init"
  "symptoms analyzer_trained = symptoms_init"
  by (simp_all add: analyzer_trained_def init_analyzer_def)

lemma normalize_trained:
  "normalize_word analyzer_trained w =
     Inr (if w = s_vibriruet then s_vibrirovat else lower w)"
  by (simp add: normalize_word_def trained_fields truthy_def morph_stub_def subscript0_def lower_def)

lemma match_term_trained:
  "match_term analyzer_trained (Some t) d =
     match_loop analyzer_trained (if lower t = s_vibriruet then s_vibrirovat else lower (lower t)) d"
  by (simp add: match_term_def normalize_trained)

lemma doc_stanok_5:
  "with_ents es s_stanok_5 =
     \<lparr>doc_text = s_stanok_5,
      tokens = [\<lparr>tok_text = s_stanok, tok_pos = [], tok_lemma = []\<rparr>,
                \<lparr>tok_text = s_5, tok_pos = [], tok_lemma = []\<rparr>],
      ents = es, sents = [s_stanok_5]\<rparr>"
  by (simp add: with_ents_def blank_pipeline_def)

lemmas eval_trained = lower_Cons lower_Nil lower_cp_def normalize_trained truthy_def truthy_opt_def

lemma trained_component_stanok:
  "match_term analyzer_trained (Some s_stanok) components_init = Inr None"
  by (simp add: match_term_trained components_init_def eval_trained)

lemma trained_component_5:
  "match_term analyzer_trained (Some s_5) components_init = Inr None"
  by (simp add: match_term_trained components_init_def eval_trained)

lemma trained_symptom_stanok:
  "match_term analyzer_trained (Some s_stanok) symptoms_init = Inr None"
  by (simp add: match_term_trained symptoms_init_def eval_trained)

lemma trained_symptom_5:
  "match_term analyzer_trained (Some s_5) symptoms_init = Inr None"
  by (simp add: match_term_trained symptoms_init_def eval_trained)

lemma is_substr_stanok: "is_substr s_stanok s_stanok_5"
  by simp

lemma known_type_stanok_5:
  "known_type_of_found equipment_types_init [s_stanok_5] = Some s_stanok"
  by (simp add: equipment_types_init_def lower_Cons lower_Nil lower_cp_def)

lemma urgency_stanok_5: "detect_urgency (with_ents es s_stanok_5) = s_Srednyaya"
  by (simp add: detect_urgency_def urgency_loop_words doc_stanok_5 high_urgency_words_def
      low_urgency_words_def lower_Cons lower_Nil lower_cp_def)

lemma analyze_trained_stanok_5:
  "analyze_text analyzer_trained s_now s_stanok_5 =
   Inr \<lparr>ner = ner_empty\<lparr>ner_equipment := [s_stanok_5], ner_equipment_id := [s_5]\<rparr>,
        failure_analysis =
          \<lparr>equipment_type = s_Stanok,
           fr_components = {s_Ne_ukazany},
           fr_symptoms = {s_Simptomy_ne_opisany},
           urgency = s_Srednyaya,
           timestamp = s_now,
           unknown_terms = []\<rparr>,
        raw_text = s_stanok_5,
        success = True\<rparr>"
proof -
  let ?es = "[\<lparr>ent_text = s_stanok_5, ent_label = ''EQUIPMENT''\<rparr>]"
  let ?d = "with_ents ?es s_stanok_5"
  let ?nr = "ner_empty\<lparr>ner_equipment := [s_stanok_5], ner_equipment_id := [s_5]\<rparr>"
  have ner: "extract_ner ?d = ?nr"
    by (simp add: doc_stanok_5 extract_ner_def ner_empty_def ner_step_def add_equipment_def
        digits_of_def isdigit_below truthy_def Let_def)
  have nrf: "ner_symptoms ?nr = []" "ner_components ?nr = []" "ner_equipment ?nr = [s_stanok_5]"
    "list_ex (\<lambda>v. v \<noteq> []) (ner_values ?nr) = True"
    by (simp_all add: ner_empty_def ner_values_def)
  have vs: "verb_symptoms analyzer_trained ?d {} = Inr {}"
    by (simp add: doc_stanok_5 verb_symptoms_def)
  have et: "determine_equipment_type analyzer_trained ?d [s_stanok_5] = Inr s_Stanok"
    by (simp add: determine_equipment_type_def trained_fields known_type_stanok_5
        capitalize_def upper_cp_def lower_Cons lower_Nil lower_cp_def
        del: known_type_of_found.simps)
  have gc: "get_components_from_dict analyzer_trained ?d = Inr {s_Ne_ukazany}"
    by (simp add: doc_stanok_5 get_components_from_dict_def trained_fields
        trained_component_stanok trained_component_5)
  have gs: "get_symptoms_from_dict analyzer_trained ?d = Inr {s_Simptomy_ne_opisany}"
    by (simp add: doc_stanok_5 get_symptoms_from_dict_def trained_fields
        trained_symptom_stanok trained_symptom_5)
  have ts: "get_timestamp ?d s_now = s_now"
    by (simp add: doc_stanok_5 get_timestamp_def)
  have un: "find_unknown_terms ?d = []"
    by (simp add: doc_stanok_5 find_unknown_terms_def)
  show ?thesis
    by (simp add: analyze_text_def trained_fields Let_def ner nrf vs et gc gs ts un urgency_stanok_5)
qed

theorem success_iff_entities_found_witness:
  "analyze_text analyzer_trained s_now s_stanok_5 =
   Inr \<lparr>ner = ner_empty\<lparr>ner_equipment := [s_stanok_5], ner_equipment_id := [s_5]\<rparr>,
        failure_analysis =
          \<lparr>equipment_type = s_Stanok,
           fr_components = {s_Ne_ukazany},
           fr_symptoms = {s_Simptomy_ne_opisany},
           urgency = s_Srednyaya,
           timestamp = s_now,
           unknown_terms = []\<rparr>,
        raw_text = s_stanok_5,
        success = True\<rparr>
   \<and> (\<exists>e \<in> set (ents (nlp analyzer_trained s_stanok_5)). ent_label e \<in> set entity_labels)"
proof -
  have "\<exists>e \<in> set (ents (nlp analyzer_trained s_stanok_5)). ent_label e \<in> set entity_labels"
    using success_iff_entities_found [OF analyze_trained_stanok_5]
    by (simp add: trained_fields doc_stanok_5 has_digit_def)
  with analyze_trained_stanok_5 show ?thesis by simp
qed

section \<open>The clock\<close>

lemma analyze_text_clock:
  "analyze_text a now text =
     map_sum id
       (\<lambda>r. r\<lparr>failure_analysis := (failure_analysis r)\<lparr>timestamp := get_timestamp (nlp a text) now\<rparr>\<rparr>)
       (analyze_text a [] text)"
  by (simp add: analyze_text_def Let_def split: sum.splits)

lemma without_timestamp_clock:
  "map_sum id without_timestamp (analyze_text a now text) =
     map_sum id without_timestamp (analyze_text a [] text)"
  by (subst analyze_text_clock, cases "analyze_text a [] text")
    (simp_all add: without_timestamp_def)

lemma get_timestamp_date:
  "\<exists>e \<in> set (ents d). ent_label e = ''DATE'' \<Longrightarrow> get_timestamp d now1 = get_timestamp d now2"
  by (auto simp: get_timestamp_def find_None_iff split: option.splits)

text \<open>
  The reading of the clock enters the result of \<open>analyze_text\<close> through the
  timestamp of the failure analysis and nowhere else: the timestamp is the text
  of the first DATE entity and, when there is none, the reading of the clock.
\<close>

lemma analyze_text_clock_only_in_timestamp:
  "map_sum id without_timestamp (analyze_text a now1 text) =
     map_sum id without_timestamp (analyze_text a now2 text)
   \<and> ((\<exists>e \<in> set (ents (nlp a text)). ent_label e = ''DATE'')
        \<longrightarrow> analyze_text a now1 text = analyze_text a now2 text)
   \<and> (\<forall>r. analyze_text a now1 text = Inr r \<longrightarrow>
          timestamp (failure_analysis r) =
            (case find (\<lambda>e. ent_label e = ''DATE'') (ents (nlp a text)) of
               Some e \<Rightarrow> ent_text e
             | None \<Rightarrow> now1))"
proof -
  have one: "map_sum id without_timestamp (analyze_text a now1 text) =
     map_sum id without_timestamp (analyze_text a now2 text)"
    using without_timestamp_clock [of a now1 "text"] without_timestamp_clock [of a now2 "text"]
    by simp
  have two: "analyze_text a now1 text = analyze_text a now2 text"
    if "\<exists>e \<in> set (ents (nlp a text)). ent_label e = ''DATE''"
    using get_timestamp_date [OF that, of now1 now2]
      analyze_text_clock [of a now1 "text"] analyze_text_clock [of a now2 "text"]
    by simp
  have three: "timestamp (failure_analysis r) =
            (case find (\<lambda>e. ent_label e = ''DATE'') (ents (nlp a text)) of
               Some e \<Rightarrow> ent_text e
             | None \<Rightarrow> now1)" if "analyze_text a now1 text = Inr r" for r
    using analyze_text_Inr(4) [OF that] by (simp add: get_timestamp_def)
  from one two three show ?thesis by blast
qed

section \<open>The equipment identifier\<close>








lemma doc_stanok_5_blank:
  "blank_pipeline s_stanok_5 =
     \<lparr>doc_text = s_stanok_5,
      tokens = [\<lparr>tok_text = s_stanok, tok_pos = [], tok_lemma = []\<rparr>,
                \<lparr>tok_text = s_5, tok_pos = [], tok_lemma = []\<rparr>],
      ents = [], sents = [s_stanok_5]\<rparr>"
  by (simp add: blank_pipeline_def)

lemma doc_stanok_blank:
  "blank_pipeline s_stanok =
     \<lparr>doc_text = s_stanok,
      tokens = [\<lparr>tok_text = s_stanok, tok_pos = [], tok_lemma = []\<rparr>],
      ents = [], sents = [s_stanok]\<rparr>"
  by (simp add: blank_pipeline_def)

lemma stanok_equipment:
  "match_term analyzer_blank (Some s_stanok) equipment_types_init = Inr (Some s_stanok)"
  by (simp add: match_term_blank equipment_types_init_def eval_simps)

lemma stanok_component:
  "match_term analyzer_blank (Some s_stanok) components_init = Inr None"
  by (simp add: match_term_blank components_init_def eval_simps)

lemma stanok_symptom:
  "match_term analyzer_blank (Some s_stanok) symptoms_init = Inr None"
  by (simp add: match_term_blank symptoms_init_def eval_simps)

lemma five_component:
  "match_term analyzer_blank (Some s_5) components_init = Inr None"
  by (simp add: match_term_blank components_init_def eval_simps)

lemma five_symptom:
  "match_term analyzer_blank (Some s_5) symptoms_init = Inr None"
  by (simp add: match_term_blank symptoms_init_def eval_simps)

lemma urgency_stanok_5_blank: "detect_urgency (blank_pipeline s_stanok_5) = s_Srednyaya"
  by (simp add: detect_urgency_def urgency_loop_words doc_stanok_5_blank high_urgency_words_def
      low_urgency_words_def eval_simps)

lemma urgency_stanok_blank: "detect_urgency (blank_pipeline s_stanok) = s_Srednyaya"
  by (simp add: detect_urgency_def urgency_loop_words doc_stanok_blank high_urgency_words_def
      low_urgency_words_def eval_simps)

lemma capitalize_stanok: "capitalize s_stanok = s_Stanok"
  by (simp add: capitalize_def upper_cp_def lower_Cons lower_Nil lower_cp_def)

lemma analyze_blank_stanok_5:
  "analyze_text analyzer_blank now s_stanok_5 =
   Inr \<lparr>ner = ner_empty,
        failure_analysis =
          \<lparr>equipment_type = s_Stanok,
           fr_components = {s_Ne_ukazany},
           fr_symptoms = {s_Simptomy_ne_opisany},
           urgency = s_Srednyaya,
           timestamp = now,
           unknown_terms = []\<rparr>,
        raw_text = s_stanok_5,
        success = False\<rparr>"
proof -
  let ?d = "blank_pipeline s_stanok_5"
  have ner: "extract_ner ?d = ner_empty"
    by (simp add: doc_stanok_5_blank extract_ner_def ner_empty_def pattern_step_def)
  have vs: "verb_symptoms analyzer_blank ?d {} = Inr {}"
    by (simp add: doc_stanok_5_blank verb_symptoms_def)
  have et: "determine_equipment_type analyzer_blank ?d [] = Inr s_Stanok"
    by (simp add: doc_stanok_5_blank determine_equipment_type_def blank_fields stanok_equipment
        truthy_opt_def capitalize_stanok)
  have gc: "get_components_from_dict analyzer_blank ?d = Inr {s_Ne_ukazany}"
    by (simp add: doc_stanok_5_blank get_components_from_dict_def blank_fields stanok_component five_component)
  have gs: "get_symptoms_from_dict analyzer_blank ?d = Inr {s_Simptomy_ne_opisany}"
    by (simp add: doc_stanok_5_blank get_symptoms_from_dict_def blank_fields stanok_symptom five_symptom)
  have ts: "get_timestamp ?d now = now"
    by (simp add: doc_stanok_5_blank get_timestamp_def)
  have un: "find_unknown_terms ?d = []"
    by (simp add: doc_stanok_5_blank find_unknown_terms_def)
  show ?thesis
    by (simp add: analyze_text_def blank_fields Let_def ner ner_empty_fields vs et gc gs ts un
        urgency_stanok_5_blank)
qed

lemma analyze_blank_stanok:
  "analyze_text analyzer_blank now s_stanok =
   Inr \<lparr>ner = ner_empty,
        failure_analysis =
          \<lparr>equipment_type = s_Stanok,
           fr_components = {s_Ne_ukazany},
           fr_symptoms = {s_Simptomy_ne_opisany},
           urgency = s_Srednyaya,
           timestamp = now,
           unknown_terms = []\<rparr>,
        raw_text = s_stanok,
        success = False\<rparr>"
proof -
  let ?d = "blank_pipeline s_stanok"
  have ner: "extract_ner ?d = ner_empty"
    by (simp add: doc_stanok_blank extract_ner_def ner_empty_def pattern_step_def)
  have vs: "verb_symptoms analyzer_blank ?d {} = Inr {}"
    by (simp add: doc_stanok_blank verb_symptoms_def)
  have et: "determine_equipment_type analyzer_blank ?d [] = Inr s_Stanok"
    by (simp add: doc_stanok_blank determine_equipment_type_def blank_fields stanok_equipment
        truthy_opt_def capitalize_stanok)
  have gc: "get_components_from_dict analyzer_blank ?d = Inr {s_Ne_ukazany}"
    by (simp add: doc_stanok_blank get_components_from_dict_def blank_fields stanok_component)
  have gs: "get_symptoms_from_dict analyzer_blank ?d = Inr {s_Simptomy_ne_opisany}"
    by (simp add: doc_stanok_blank get_symptoms_from_dict_def blank_fields stanok_symptom)
  have ts: "get_timestamp ?d now = now"
    by (simp add: doc_stanok_blank get_timestamp_def)
  have un: "find_unknown_terms ?d = []"
    by (simp add: doc_stanok_blank find_unknown_terms_def)
  show ?thesis
    by (simp add: analyze_text_def blank_fields Let_def ner ner_empty_fields vs et gc gs ts un
        urgency_stanok_blank)
qed

text \<open>Two runs on the same analyzer and text, a minute apart, differ in the timestamp.\<close>

lemma analyze_text_reads_clock:
  "analyze_text analyzer_blank s_now s_stanok \<noteq> analyze_text analyzer_blank s_later s_stanok"
  by (simp add: analyze_blank_stanok)



lemma has_digit_stanok_5: "has_digit s_stanok_5"
  by (simp add: has_digit_def isdigit_below)


section \<open>Training: what is raised and what is saved\<close>

lemma minibatch_Nil: "minibatch sizes k [] = []"
  by (subst minibatch.simps) simp

lemma builds_unpack: "builds sp x \<Longrightarrow> unpack_error x = None"
  by (auto simp: builds_def)

lemma collect_labels_first_malformed:
  "\<forall>x \<in> set pre. unpack_error x = None \<Longrightarrow> unpack_error m = Some e \<Longrightarrow>
     collect_labels (pre @ m # rest) labels = Inl e"
proof (induction pre arbitrary: labels)
  case Nil
  then show ?case by (cases m) auto
next
  case (Cons x pre)
  then show ?case by (cases x) auto
qed

lemma collect_labels_ok:
  "\<forall>x \<in> set xs. unpack_error x = None \<Longrightarrow> \<exists>ls. collect_labels xs labels = Inr ls"
proof (induction xs arbitrary: labels)
  case Nil
  then show ?case by simp
next
  case (Cons x xs)
  then show ?case by (cases x) auto
qed

lemma make_examples_first_failure:
  "\<forall>x \<in> set pre. builds sp x \<Longrightarrow> from_dict sp t es = Inl e \<Longrightarrow>
     make_examples sp (pre @ Item t es # rest) acc = Inl e"
proof (induction pre arbitrary: acc)
  case Nil
  then show ?case by simp
next
  case (Cons x pre)
  from Cons.prems(1) obtain t' es' ex where "x = Item t' es'" "from_dict sp t' es' = Inr ex"
    by (auto simp: builds_def)
  with Cons show ?case by simp
qed

lemma make_examples_ok:
  "\<forall>x \<in> set xs. builds sp x \<Longrightarrow> \<exists>exs. make_examples sp xs acc = Inr exs"
proof (induction xs arbitrary: acc)
  case Nil
  then show ?case by simp
next
  case (Cons x xs)
  from Cons.prems obtain t' es' ex where "x = Item t' es'" "from_dict sp t' es' = Inr ex"
    by (auto simp: builds_def)
  with Cons show ?case by simp
qed

lemma make_examples_builds:
  "make_examples sp xs acc = Inr exs \<Longrightarrow> \<forall>x \<in> set xs. builds sp x"
  by (induction sp xs acc rule: make_examples.induct) (auto simp: builds_def split: sum.splits)

lemma run_batches_first_failure:
  "run_batches sp w pre l = (Inr l', w') \<Longrightarrow> update sp w' b l' = (Inl e, w'') \<Longrightarrow>
     run_batches sp w (pre @ b # rest) l = (Inl e, w'')"
proof (induction pre arbitrary: w l)
  case Nil
  then show ?case by simp
next
  case (Cons b0 pre)
  show ?case
  proof (cases "update sp w b0 l")
    case (Pair res w1)
    show ?thesis
    proof (cases res)
      case (Inl e0)
      with Pair Cons.prems(1) show ?thesis by simp
    next
      case (Inr l1)
      with Pair Cons.prems(1) have "run_batches sp w1 pre l1 = (Inr l', w')" by simp
      from Cons.IH [OF this Cons.prems(2)] Pair Inr show ?thesis by simp
    qed
  qed
qed

lemma run_eval_first_failure:
  "run_eval sp w pre acc = Inr acc' \<Longrightarrow> predict sp w ex = Inl e \<Longrightarrow>
     run_eval sp w (pre @ ex # rest) acc = Inl e"
proof (induction pre arbitrary: acc)
  case Nil
  obtain correct n_gold where "acc = (correct, n_gold)" by (cases acc)
  with Nil.prems(2) show ?case by simp
next
  case (Cons x pre)
  obtain correct n_gold where acc: "acc = (correct, n_gold)" by (cases acc)
  show ?case
  proof (cases "predict sp w x")
    case (Inl e0)
    with Cons.prems(1) acc show ?thesis by simp
  next
    case (Inr counts)
    obtain found gold where counts: "counts = (found, gold)" by (cases counts)
    from Cons.prems(1) acc Inr counts
    have "run_eval sp w pre (correct + found, n_gold + gold) = Inr acc'" by simp
    from Cons.IH [OF this Cons.prems(2)] acc Inr counts show ?thesis by simp
  qed
qed

lemma iterations_add:
  "iterations sp (j + k) tr ev w =
     (case iterations sp j tr ev w of
        (Inl e, w') \<Rightarrow> (Inl e, w')
      | (Inr u, w') \<Rightarrow> iterations sp k tr ev w')"
  by (induction j arbitrary: w) (auto split: prod.splits sum.splits)

lemma train_split:
  "take (4 * length xs div 5) xs = train_part xs" "drop (4 * length xs div 5) xs = eval_part xs"
  by (simp_all add: train_part_def eval_part_def)

lemma train_after_examples:
  assumes "make_examples sp train_data [] = Inr exs"
  shows "\<exists>ls. train_ner_model sp train_data output_dir n_iter s =
     (let s1 = s\<lparr>ner_labels := ner_labels s \<union> ls\<rparr>;
          examples = shuffle (draws sp) exs
      in case begin_training sp (weights s) of
           (Inl e, w0) \<Rightarrow> (Inl e, s1\<lparr>weights := w0\<rparr>)
         | (Inr u, w0) \<Rightarrow>
             (case iterations sp n_iter (train_part examples) (eval_part examples) w0 of
                (Inl e, w) \<Rightarrow> (Inl e, s1\<lparr>weights := w\<rparr>)
              | (Inr u', w) \<Rightarrow>
                  (case to_disk sp w output_dir (disk s) of
                     (res, disk') \<Rightarrow> (res, s1\<lparr>weights := w, disk := disk'\<rparr>))))"
proof -
  have "\<forall>x \<in> set train_data. unpack_error x = None"
    using make_examples_builds [OF assms] builds_unpack by blast
  then obtain ls where "collect_labels train_data {} = Inr ls"
    using collect_labels_ok by blast
  then show ?thesis
    by (intro exI [of _ ls])
      (auto simp: train_ner_model_def assms Let_def train_split split: prod.splits sum.splits)
qed

text \<open>
  Claim C9, as amended. \<open>train_ner_model\<close> catches nothing, and every failure
  is raised to the caller:
  \<^item> the first malformed element of the corpus raises its error (\<open>TypeError\<close>,
    \<open>ValueError\<close> or \<open>AttributeError\<close>) before the pipeline is touched;
  \<^item> on a well-formed corpus, the first text from which spaCy builds no example
    raises what \<open>Example.from_dict\<close> raises, with the weights and the persisted
    models as they were;
  \<^item> what \<open>begin_training\<close> raises, and what an update or the evaluation of an
    iteration raises, is raised, with the persisted models as they were;
  \<^item> when every iteration has completed, \<open>to_disk\<close> is called on the final
    weights: the call raises or returns as \<open>to_disk\<close> does, and the persisted
    models are what \<open>to_disk\<close> leaves.
  The last four conjuncts are the same for the loops: the first update that
  raises ends the loop over the batches, the first evaluation that raises ends
  the loop over the evaluation examples, and either ends the iterations.
\<close>

theorem train_ner_model_raises_and_saves_last:
  "(\<forall>pre m rest e.
       train_data = pre @ m # rest \<and> (\<forall>x \<in> set pre. unpack_error x = None)
         \<and> unpack_error m = Some e
       \<longrightarrow> train_ner_model sp train_data output_dir n_iter s = (Inl e, s))
   \<and> (\<forall>pre t es rest e.
       train_data = pre @ Item t es # rest \<and> (\<forall>x \<in> set pre. builds sp x)
         \<and> (\<forall>x \<in> set rest. unpack_error x = None) \<and> from_dict sp t es = Inl e
       \<longrightarrow> fst (train_ner_model sp train_data output_dir n_iter s) = Inl e
           \<and> weights (snd (train_ner_model sp train_data output_dir n_iter s)) = weights s
           \<and> disk (snd (train_ner_model sp train_data output_dir n_iter s)) = disk s)
   \<and> (\<forall>e w.
       (\<forall>x \<in> set train_data. builds sp x) \<and> begin_training sp (weights s) = (Inl e, w)
       \<longrightarrow> fst (train_ner_model sp train_data output_dir n_iter s) = Inl e
           \<and> weights (snd (train_ner_model sp train_data output_dir n_iter s)) = w
           \<and> disk (snd (train_ner_model sp train_data output_dir n_iter s)) = disk s)
   \<and> (\<forall>exs w0 e w.
       make_examples sp train_data [] = Inr exs \<and> begin_training sp (weights s) = (Inr (), w0)
         \<and> iterations sp n_iter (train_part (shuffle (draws sp) exs))
               (eval_part (shuffle (draws sp) exs)) w0 = (Inl e, w)
       \<longrightarrow> fst (train_ner_model sp train_data output_dir n_iter s) = Inl e
           \<and> weights (snd (train_ner_model sp train_data output_dir n_iter s)) = w
           \<and> disk (snd (train_ner_model sp train_data output_dir n_iter s)) = disk s)
   \<and> (\<forall>exs w0 w.
       make_examples sp train_data [] = Inr exs \<and> begin_training sp (weights s) = (Inr (), w0)
         \<and> iterations sp n_iter (train_part (shuffle (draws sp) exs))
               (eval_part (shuffle (draws sp) exs)) w0 = (Inr (), w)
       \<longrightarrow> fst (train_ner_model sp train_data output_dir n_iter s)
             = fst (to_disk sp w output_dir (disk s))
           \<and> weights (snd (train_ner_model sp train_data output_dir n_iter s)) = w
           \<and> disk (snd (train_ner_model sp train_data output_dir n_iter s))
             = snd (to_disk sp w output_dir (disk s)))
   \<and> (\<forall>w pre l l' w' b e w'' rest.
       run_batches sp w pre l = (Inr l', w') \<and> update sp w' b l' = (Inl e, w'')
       \<longrightarrow> run_batches sp w (pre @ b # rest) l = (Inl e, w''))
   \<and> (\<forall>w pre acc acc' ex e rest.
       run_eval sp w pre acc = Inr acc' \<and> predict sp w ex = Inl e
       \<longrightarrow> run_eval sp w (pre @ ex # rest) acc = Inl e)
   \<and> (\<forall>j k tr ev w w' e w''.
       iterations sp j tr ev w = (Inr (), w')
         \<and> run_batches sp w' (minibatch (batch_size sp) 0 tr) {} = (Inl e, w'')
       \<longrightarrow> iterations sp (j + Suc k) tr ev w = (Inl e, w''))
   \<and> (\<forall>j k tr ev w w' l w'' e.
       iterations sp j tr ev w = (Inr (), w')
         \<and> run_batches sp w' (minibatch (batch_size sp) 0 tr) {} = (Inr l, w'')
         \<and> run_eval sp w'' ev (0, 0) = Inl e
       \<longrightarrow> iterations sp (j + Suc k) tr ev w = (Inl e, w''))"
proof -
  let ?R = "train_ner_model sp train_data output_dir n_iter s"
  have c1: "?R = (Inl e, s)"
    if "train_data = pre @ m # rest \<and> (\<forall>x \<in> set pre. unpack_error x = None)
         \<and> unpack_error m = Some e" for pre m rest e
    using that collect_labels_first_malformed [of pre m e rest "{}"]
    by (simp add: train_ner_model_def)
  have c2: "fst ?R = Inl e \<and> weights (snd ?R) = weights s \<and> disk (snd ?R) = disk s"
    if h: "train_data = pre @ Item t es # rest \<and> (\<forall>x \<in> set pre. builds sp x)
         \<and> (\<forall>x \<in> set rest. unpack_error x = None) \<and> from_dict sp t es = Inl e"
    for pre t es rest e
  proof -
    from h have "\<forall>x \<in> set train_data. unpack_error x = None"
      using builds_unpack by auto
    then obtain ls where ls: "collect_labels train_data {} = Inr ls"
      using collect_labels_ok by blast
    from h have "make_examples sp train_data [] = Inl e"
      using make_examples_first_failure [of pre sp t es e rest "[]"] by simp
    with ls show ?thesis by (simp add: train_ner_model_def)
  qed
  have c3: "fst ?R = Inl e \<and> weights (snd ?R) = w \<and> disk (snd ?R) = disk s"
    if h: "(\<forall>x \<in> set train_data. builds sp x) \<and> begin_training sp (weights s) = (Inl e, w)"
    for e w
  proof -
    from h obtain exs where "make_examples sp train_data [] = Inr exs"
      using make_examples_ok by blast
    from train_after_examples [OF this, of output_dir n_iter s] h
    show ?thesis by (auto simp: Let_def)
  qed
  have c4: "fst ?R = Inl e \<and> weights (snd ?R) = w \<and> disk (snd ?R) = disk s"
    if h: "make_examples sp train_data [] = Inr exs \<and> begin_training sp (weights s) = (Inr (), w0)
         \<and> iterations sp n_iter (train_part (shuffle (draws sp) exs))
               (eval_part (shuffle (draws sp) exs)) w0 = (Inl e, w)" for exs w0 e w
  proof -
    from h have m: "make_examples sp train_data [] = Inr exs" by simp
    from train_after_examples [OF m, of output_dir n_iter s] h
    show ?thesis by (auto simp: Let_def)
  qed
  have c5: "fst ?R = fst (to_disk sp w output_dir (disk s)) \<and> weights (snd ?R) = w
           \<and> disk (snd ?R) = snd (to_disk sp w output_dir (disk s))"
    if h: "make_examples sp train_data [] = Inr exs \<and> begin_training sp (weights s) = (Inr (), w0)
         \<and> iterations sp n_iter (train_part (shuffle (draws sp) exs))
               (eval_part (shuffle (draws sp) exs)) w0 = (Inr (), w)" for exs w0 w
  proof -
    from h have m: "make_examples sp train_data [] = Inr exs" by simp
    obtain res d' where td: "to_disk sp w output_dir (disk s) = (res, d')"
      by (cases "to_disk sp w output_dir (disk s)")
    from train_after_examples [OF m, of output_dir n_iter s] h
    show ?thesis by (auto simp: Let_def td)
  qed
  have c6: "run_batches sp w (pre @ b # rest) l = (Inl e, w'')"
    if "run_batches sp w pre l = (Inr l', w') \<and> update sp w' b l' = (Inl e, w'')"
    for w pre l l' w' b e w'' rest
    using run_batches_first_failure [of sp w pre l l' w' b e w'' rest] that by simp
  have c7: "run_eval sp w (pre @ ex # rest) acc = Inl e"
    if "run_eval sp w pre acc = Inr acc' \<and> predict sp w ex = Inl e" for w pre acc acc' ex e rest
    using run_eval_first_failure [of sp w pre acc acc' ex e rest] that by simp
  have c8: "iterations sp (j + Suc k) tr ev w = (Inl e, w'')"
    if "iterations sp j tr ev w = (Inr (), w')
         \<and> run_batches sp w' (minibatch (batch_size sp) 0 tr) {} = (Inl e, w'')"
    for j k tr ev w w' e w''
  proof -
    from that have "iterations sp (j + Suc k) tr ev w = iterations sp (Suc k) tr ev w'"
      by (subst iterations_add) simp
    with that show ?thesis by simp
  qed
  have c9: "iterations sp (j + Suc k) tr ev w = (Inl e, w'')"
    if "iterations sp j tr ev w = (Inr (), w')
         \<and> run_batches sp w' (minibatch (batch_size sp) 0 tr) {} = (Inr l, w'')
         \<and> run_eval sp w'' ev (0, 0) = Inl e"
    for j k tr ev w w' l w'' e
  proof -
    from that have "iterations sp (j + Suc k) tr ev w = iterations sp (Suc k) tr ev w'"
      by (subst iterations_add) simp
    with that show ?thesis by simp
  qed
  show ?thesis
    apply (intro conjI allI impI)
    using c1 apply blast
    using c2 apply blast
    using c2 apply blast
    using c2 apply blast
    using c3 apply blast
    using c3 apply blast
    using c3 apply blast
    using c4 apply blast
    using c4 apply blast
    using c4 apply blast
    using c5 apply blast
    using c5 apply blast
    using c5 apply blast
    using c6 apply blast
    using c7 apply blast
    using c8 apply blast
    using c9 apply blast
    done
qed

text \<open>
  The claim as stated fails: on a corpus with a malformed element
  \<open>train_ner_model\<close> does not return; it raises \<open>AttributeError\<close> for a pair
  whose annotations are no dictionary, and \<open>TypeError\<close> for an element that is
  no pair.
\<close>

theorem train_ner_model_raises_on_malformed_corpus:
  "train_ner_model spacy_stub [Item s_stanok_5 [(0, 8, ''EQUIPMENT'')], NoDict s_stanok]
     ''iiot_ner_model'' 150 trained_state = (Inl AttributeError, trained_state)
   \<and> train_ner_model spacy_stub [NotIterable] ''iiot_ner_model'' 150 trained_state
     = (Inl TypeError, trained_state)"
  by (simp add: train_ner_model_def)

lemma make_examples_cong:
  "from_dict sp = from_dict sp' \<Longrightarrow> make_examples sp xs acc = make_examples sp' xs acc"
  by (induction sp xs acc rule: make_examples.induct) (auto split: sum.splits)

lemma stub_fields:
  "from_dict spacy_stub = (\<lambda>text entities. if overlapping entities then Inl ValueError else Inr text)"
  "draws spacy_stub = [3, 1, 4, 1, 5]"
  "begin_training spacy_stub = (\<lambda>w. (Inr (), 0))"
  "batch_size spacy_stub = (\<lambda>k. 4)"
  "update spacy_stub = (\<lambda>w batch losses. (Inr (insert ''ner'' losses), Suc w))"
  "predict spacy_stub = (\<lambda>w example. Inr (1, 1))"
  "to_disk spacy_stub = (\<lambda>w output_dir models. (Inr (), models(output_dir \<mapsto> w)))"
  by (simp_all add: spacy_stub_def)

lemma variant_fields:
  "from_dict spacy_begin_fails = from_dict spacy_stub"
  "begin_training spacy_begin_fails = (\<lambda>w. (Inl (LibraryError 1), w))"
  "from_dict spacy_update_fails = from_dict spacy_stub"
  "draws spacy_update_fails = draws spacy_stub"
  "begin_training spacy_update_fails = begin_training spacy_stub"
  "batch_size spacy_update_fails = batch_size spacy_stub"
  "update spacy_update_fails = (\<lambda>w batch losses. (Inl (LibraryError 12), Suc w))"
  "from_dict spacy_disk_fails = from_dict spacy_stub"
  "draws spacy_disk_fails = draws spacy_stub"
  "begin_training spacy_disk_fails = begin_training spacy_stub"
  "batch_size spacy_disk_fails = batch_size spacy_stub"
  "update spacy_disk_fails = update spacy_stub"
  "predict spacy_disk_fails = predict spacy_stub"
  "to_disk spacy_disk_fails = (\<lambda>w output_dir models. (Inl (LibraryError 28), models(output_dir \<mapsto> 0)))"
  by (simp_all add: spacy_begin_fails_def spacy_update_fails_def spacy_disk_fails_def)

lemma examples_corpus5:
  "make_examples spacy_stub corpus5 [] =
     Inr [s_stanok_5, s_stanok, s_shpindel, s_stanok_vibriruet, s_profilaktika]"
  by (simp add: corpus5_def stub_fields)

lemma builds_corpus5: "from_dict sp = from_dict spacy_stub \<Longrightarrow> \<forall>x \<in> set corpus5. builds sp x"
  by (simp add: corpus5_def builds_def stub_fields)

lemma shuffle_five: "shuffle [3, 1, 4, 1, 5] [a, b, c, d, e] = [d, b, c, e, a]"
  by (simp add: Let_def)

lemma parts_five:
  "train_part [d, b, c, e, a] = [d, b, c, e]" "eval_part [d, b, c, e, a] = [a]"
  by (simp_all add: train_part_def eval_part_def)

lemma minibatch_four: "minibatch (\<lambda>k. 4) k [a, b, c, d] = [[a, b, c, d]]"
  by (subst minibatch.simps) (simp add: minibatch_Nil)

lemma three: "(3::nat) = Suc (Suc (Suc 0))"
  by simp

lemma iterations_stub:
  "iterations spacy_stub 3 [a, b, c, d] [x] 0 = (Inr (), 3)"
  by (subst three) (simp add: stub_fields minibatch_four)

lemma iterations_disk_fails:
  "iterations spacy_disk_fails 3 [a, b, c, d] [x] 0 = (Inr (), 3)"
  by (subst three) (simp add: variant_fields stub_fields minibatch_four)

lemma iterations_update_fails:
  "iterations spacy_update_fails 3 [a, b, c, d] [x] 0 = (Inl (LibraryError 12), 1)"
  by (subst three) (simp add: variant_fields stub_fields minibatch_four)

theorem train_ner_model_raises_and_saves_last_witness:
  "train_ner_model spacy_stub [Item s_stanok [(0, 6, ''EQUIPMENT'')], WrongLength, NotIterable]
     ''iiot_ner_model'' 3 trained_state = (Inl ValueError, trained_state)
   \<and> fst (train_ner_model spacy_stub
          [Item s_stanok_5 [(0, 8, ''EQUIPMENT''), (7, 8, ''EQUIPMENT_ID'')]]
          ''iiot_ner_model'' 3 trained_state) = Inl ValueError
   \<and> fst (train_ner_model spacy_begin_fails corpus5 ''iiot_ner_model'' 3 trained_state)
       = Inl (LibraryError 1)
   \<and> fst (train_ner_model spacy_update_fails corpus5 ''iiot_ner_model'' 3 trained_state)
       = Inl (LibraryError 12)
   \<and> disk (snd (train_ner_model spacy_update_fails corpus5 ''iiot_ner_model'' 3 trained_state))
       = [''iiot_ner_model'' \<mapsto> 7]
   \<and> fst (train_ner_model spacy_stub corpus5 ''iiot_ner_model'' 3 trained_state) = Inr ()
   \<and> disk (snd (train_ner_model spacy_stub corpus5 ''iiot_ner_model'' 3 trained_state))
       = [''iiot_ner_model'' \<mapsto> 3]
   \<and> fst (train_ner_model spacy_disk_fails corpus5 ''iiot_ner_model'' 3 trained_state)
       = Inl (LibraryError 28)
   \<and> disk (snd (train_ner_model spacy_disk_fails corpus5 ''iiot_ner_model'' 3 trained_state))
       = [''iiot_ner_model'' \<mapsto> 0]"
proof -
  let ?out = "''iiot_ner_model''"
  let ?exs = "[s_stanok_5, s_stanok, s_shpindel, s_stanok_vibriruet, s_profilaktika]"
  have w: "weights trained_state = 7" and d: "disk trained_state = [?out \<mapsto> 7]"
    by (simp_all add: trained_state_def)
  have a: "train_ner_model spacy_stub [Item s_stanok [(0, 6, ''EQUIPMENT'')], WrongLength, NotIterable]
     ?out 3 trained_state = (Inl ValueError, trained_state)"
  proof -
    have "[Item s_stanok [(0, 6, ''EQUIPMENT'')], WrongLength, NotIterable]
            = [Item s_stanok [(0, 6, ''EQUIPMENT'')]] @ WrongLength # [NotIterable]
          \<and> (\<forall>x \<in> set [Item s_stanok [(0, 6, ''EQUIPMENT'')]]. unpack_error x = None)
          \<and> unpack_error WrongLength = Some ValueError" by simp
    then show ?thesis
      by (rule train_ner_model_raises_and_saves_last [THEN conjunct1, rule_format])
  qed
  have b: "fst (train_ner_model spacy_stub
          [Item s_stanok_5 [(0, 8, ''EQUIPMENT''), (7, 8, ''EQUIPMENT_ID'')]]
          ?out 3 trained_state) = Inl ValueError"
  proof -
    let ?c = "[Item s_stanok_5 [(0, 8, ''EQUIPMENT''), (7, 8, ''EQUIPMENT_ID'')]]"
    have "?c = [] @ Item s_stanok_5 [(0, 8, ''EQUIPMENT''), (7, 8, ''EQUIPMENT_ID'')] # []
          \<and> (\<forall>x \<in> set []. builds spacy_stub x) \<and> (\<forall>x \<in> set []. unpack_error x = None)
          \<and> from_dict spacy_stub s_stanok_5 [(0, 8, ''EQUIPMENT''), (7, 8, ''EQUIPMENT_ID'')]
              = Inl ValueError"
      by (simp add: stub_fields)
    from train_ner_model_raises_and_saves_last [THEN conjunct2, THEN conjunct1, rule_format, OF this]
    show ?thesis by simp
  qed
  have c: "fst (train_ner_model spacy_begin_fails corpus5 ?out 3 trained_state) = Inl (LibraryError 1)"
  proof -
    have "(\<forall>x \<in> set corpus5. builds spacy_begin_fails x)
          \<and> begin_training spacy_begin_fails (weights trained_state) = (Inl (LibraryError 1), 7)"
      using builds_corpus5 [of spacy_begin_fails] by (simp add: variant_fields w)
    from train_ner_model_raises_and_saves_last
      [THEN conjunct2, THEN conjunct2, THEN conjunct1, rule_format, OF this]
    show ?thesis by simp
  qed
  have me: "make_examples sp corpus5 [] = Inr ?exs" if "from_dict sp = from_dict spacy_stub" for sp
    using make_examples_cong [OF that] examples_corpus5 by simp
  have u: "fst (train_ner_model spacy_update_fails corpus5 ?out 3 trained_state) = Inl (LibraryError 12)
      \<and> disk (snd (train_ner_model spacy_update_fails corpus5 ?out 3 trained_state)) = [?out \<mapsto> 7]"
  proof -
    have h: "make_examples spacy_update_fails corpus5 [] = Inr ?exs
          \<and> begin_training spacy_update_fails (weights trained_state) = (Inr (), 0)
          \<and> iterations spacy_update_fails 3 (train_part (shuffle (draws spacy_update_fails) ?exs))
               (eval_part (shuffle (draws spacy_update_fails) ?exs)) 0 = (Inl (LibraryError 12), 1)"
      by (simp add: me variant_fields stub_fields shuffle_five parts_five iterations_update_fails)
    from train_ner_model_raises_and_saves_last
      [THEN conjunct2, THEN conjunct2, THEN conjunct2, THEN conjunct1, rule_format, OF h] d
    show ?thesis by simp
  qed
  have ok: "fst (train_ner_model spacy_stub corpus5 ?out 3 trained_state) = Inr ()
      \<and> disk (snd (train_ner_model spacy_stub corpus5 ?out 3 trained_state)) = [?out \<mapsto> 3]"
  proof -
    have h: "make_examples spacy_stub corpus5 [] = Inr ?exs
          \<and> begin_training spacy_stub (weights trained_state) = (Inr (), 0)
          \<and> iterations spacy_stub 3 (train_part (shuffle (draws spacy_stub) ?exs))
               (eval_part (shuffle (draws spacy_stub) ?exs)) 0 = (Inr (), 3)"
      by (simp add: examples_corpus5 stub_fields shuffle_five parts_five iterations_stub)
    have t: "to_disk spacy_stub 3 ?out (disk trained_state) = (Inr (), [?out \<mapsto> 3])"
      by (simp add: stub_fields d)
    from train_ner_model_raises_and_saves_last
      [THEN conjunct2, THEN conjunct2, THEN conjunct2, THEN conjunct2, THEN conjunct1,
        rule_format, OF h, of ?out] t
    show ?thesis by simp
  qed
  have df: "fst (train_ner_model spacy_disk_fails corpus5 ?out 3 trained_state) = Inl (LibraryError 28)
      \<and> disk (snd (train_ner_model spacy_disk_fails corpus5 ?out 3 trained_state)) = [?out \<mapsto> 0]"
  proof -
    have h: "make_examples spacy_disk_fails corpus5 [] = Inr ?exs
          \<and> begin_training spacy_disk_fails (weights trained_state) = (Inr (), 0)
          \<and> iterations spacy_disk_fails 3 (train_part (shuffle (draws spacy_disk_fails) ?exs))
               (eval_part (shuffle (draws spacy_disk_fails) ?exs)) 0 = (Inr (), 3)"
      by (simp add: me variant_fields stub_fields shuffle_five parts_five iterations_disk_fails)
    have t: "to_disk spacy_disk_fails 3 ?out (disk trained_state)
               = (Inl (LibraryError 28), [?out \<mapsto> 0])"
      by (simp add: variant_fields d)
    from train_ner_model_raises_and_saves_last
      [THEN conjunct2, THEN conjunct2, THEN conjunct2, THEN conjunct2, THEN conjunct1,
        rule_format, OF h, of ?out] t
    show ?thesis by simp
  qed
  from a b c u ok df show ?thesis by simp
qed

text \<open>
  On the empty corpus no batch is run, \<open>losses\<close> stays empty, and the report of
  the first iteration raises \<open>KeyError\<close>.
\<close>

lemma train_empty_corpus_raises:
  "begin_training sp (weights s) = (Inr (), w0) \<Longrightarrow>
     train_ner_model sp [] output_dir (Suc n) s = (Inl KeyError, s\<lparr>weights := w0\<rparr>)"
  by (simp add: train_ner_model_def minibatch_Nil)

section \<open>Where \<open>analyze_text\<close> returns\<close>

text \<open>
  Once the pipeline has returned the document, nothing in \<open>analyze_text\<close> but
  \<open>_verb_to_symptom_noun\<close> raises: the matcher and the dictionary extractors
  are total, and their results are never empty. So, on the document of the
  pipeline, \<open>analyze_text\<close> returns whenever the morphological analyzer gives a
  parse for every token tagged as a verb (in particular when no token is tagged
  so, as on a pipeline without a tagger), and then the components and the
  symptoms of the failure analysis are non-empty; on the empty text the result
  holds the sentinels. The extractors \<open>_get_components\<close> and
  \<open>_get_symptoms\<close>, which \<open>analyze_text\<close> does not call, are total and
  non-empty as well.
\<close>

lemma add_matches_total:
  assumes "\<And>x. x \<in> set xs \<Longrightarrow> \<exists>r. f x = Inr r"
  shows "\<exists>s. add_matches f xs acc = Inr s \<and> acc \<subseteq> s"
  using assms
proof (induction xs arbitrary: acc)
  case Nil
  then show ?case by simp
next
  case (Cons x xs)
  obtain r where r: "f x = Inr r" using Cons.prems by auto
  let ?acc = "case r of None \<Rightarrow> acc | Some w \<Rightarrow> if truthy w then insert w acc else acc"
  have step: "add_matches f (x # xs) acc = add_matches f xs ?acc"
    by (simp add: r split: option.split)
  obtain s where s: "add_matches f xs ?acc = Inr s" "?acc \<subseteq> s"
    using Cons.IH [of ?acc] Cons.prems by auto
  have "acc \<subseteq> ?acc" by (auto split: option.split)
  with s step show ?case by auto
qed

lemma match_term_returns: "\<exists>r. match_term a inp d = Inr r"
  using match_term_total [of a inp d] by blast

lemma get_components_from_dict_total:
  "\<exists>s. get_components_from_dict a d = Inr s \<and> s \<noteq> {}"
proof -
  obtain s where "add_matches (\<lambda>t. match_term a (Some (tok_text t)) (components a)) (tokens d) {} = Inr s"
    using add_matches_total [of "tokens d" "\<lambda>t. match_term a (Some (tok_text t)) (components a)" "{}"]
      match_term_returns by blast
  then show ?thesis by (simp add: get_components_from_dict_def)
qed

lemma get_symptoms_from_dict_total:
  "\<exists>s. get_symptoms_from_dict a d = Inr s \<and> s \<noteq> {}"
proof -
  obtain s where "add_matches (\<lambda>t. match_term a (Some (tok_text t)) (symptoms a)) (tokens d) {} = Inr s"
    using add_matches_total [of "tokens d" "\<lambda>t. match_term a (Some (tok_text t)) (symptoms a)" "{}"]
      match_term_returns by blast
  then show ?thesis by (simp add: get_symptoms_from_dict_def)
qed

lemma get_components_total:
  "\<exists>s. get_components a d = Inr s \<and> s \<noteq> {}"
proof -
  let ?f = "\<lambda>t. case convert_verb_to_noun a (tok_text t) of
                     Inl e \<Rightarrow> Inl e
                   | Inr word \<Rightarrow> match_term a word (components a)"
  have "\<exists>r. ?f t = Inr r" for t
  proof -
    obtain word where "convert_verb_to_noun a (tok_text t) = Inr word"
      using convert_verb_to_noun_total by blast
    then show ?thesis using match_term_returns [of a word "components a"] by simp
  qed
  then obtain s where "add_matches ?f (tokens d) {} = Inr s"
    using add_matches_total [of "tokens d" ?f "{}"] by blast
  then show ?thesis by (simp add: get_components_def)
qed

lemma get_symptoms_total:
  "\<exists>s. get_symptoms a d = Inr s \<and> s \<noteq> {}"
proof -
  let ?m = "\<lambda>w. match_term a (Some w) (symptoms a)"
  let ?c = "\<lambda>t. case convert_verb_to_noun a (tok_text t) of
                          Inl e \<Rightarrow> Inl e
                        | Inr noun_form \<Rightarrow>
                            if truthy_opt noun_form then match_term a noun_form (symptoms a)
                            else Inr None"
  have c: "\<exists>r. ?c t = Inr r" for t
  proof -
    obtain word where "convert_verb_to_noun a (tok_text t) = Inr word"
      using convert_verb_to_noun_total by blast
    then show ?thesis using match_term_returns [of a word "symptoms a"] by simp
  qed
  obtain s2 where s2: "add_matches ?m (concat (map (\<lambda>t. [tok_text t, tok_lemma t]) (tokens d)))
      (set (map (\<lambda>e. lower (ent_text e)) (filter (\<lambda>e. ent_label e = ''SYMPTOM'') (ents d)))) = Inr s2"
    using add_matches_total [of _ ?m] match_term_returns by blast
  obtain s3 where s3: "add_matches ?c (filter (\<lambda>t. tok_pos t \<in> set [''VERB'', ''ADJ'']) (tokens d)) s2 = Inr s3"
    using add_matches_total [of _ ?c s2] c by blast
  obtain s4 where s4: "add_matches ?m (phrases (tokens d)) s3 = Inr s4"
    using add_matches_total [of _ ?m s3] match_term_returns by blast
  show ?thesis
    by (simp only: get_symptoms_def Let_def s2 s3 s4 sum.case) simp
qed

lemma first_match_total: "\<exists>r. first_match a td ts = Inr r"
proof (induction ts)
  case Nil
  then show ?case by simp
next
  case (Cons t ts)
  obtain r where "match_term a (Some (tok_text t)) td = Inr r"
    using match_term_returns by blast
  with Cons show ?case by auto
qed

lemma determine_equipment_type_total: "\<exists>s. determine_equipment_type a d found = Inr s"
proof (cases found)
  case Nil
  obtain r where "first_match a (equipment_types a) (tokens d) = Inr r"
    using first_match_total by blast
  with Nil show ?thesis by (cases r) (simp_all add: determine_equipment_type_def)
next
  case (Cons eq0 rest)
  then show ?thesis by (simp add: determine_equipment_type_def)
qed

lemma analyze_text_after_verbs:
  assumes "verb_symptoms a (nlp a text) (set (ner_symptoms (extract_ner (nlp a text)))) = Inr s"
  shows "\<exists>r. analyze_text a now text = Inr r
           \<and> fr_components (failure_analysis r) \<noteq> {}
           \<and> fr_symptoms (failure_analysis r) \<noteq> {}"
proof -
  let ?d = "nlp a text"
  obtain et where et: "determine_equipment_type a ?d (ner_equipment (extract_ner ?d)) = Inr et"
    using determine_equipment_type_total by blast
  obtain cs where cs: "get_components_from_dict a ?d = Inr cs" "cs \<noteq> {}"
    using get_components_from_dict_total by blast
  obtain ss where ss: "get_symptoms_from_dict a ?d = Inr ss" "ss \<noteq> {}"
    using get_symptoms_from_dict_total by blast
  show ?thesis
    using cs(2) ss(2)
    by (simp only: analyze_text_def Let_def assms et cs(1) ss(1) sum.case) auto
qed

lemma verb_to_symptom_noun_total:
  "morph a = Some p \<Longrightarrow> p w = Inr ps \<Longrightarrow> ps \<noteq> [] \<Longrightarrow> \<exists>r. verb_to_symptom_noun a w = Inr r"
  by (cases ps) (simp_all add: verb_to_symptom_noun_def subscript0_def)

lemma analyze_text_returns:
  assumes "\<And>t. t \<in> set (tokens (nlp a text)) \<Longrightarrow> tok_pos t = ''VERB'' \<Longrightarrow>
             \<exists>p ps. morph a = Some p \<and> p (tok_text t) = Inr ps \<and> ps \<noteq> []"
  shows "\<exists>r. analyze_text a now text = Inr r
           \<and> fr_components (failure_analysis r) \<noteq> {}
           \<and> fr_symptoms (failure_analysis r) \<noteq> {}"
proof -
  let ?d = "nlp a text"
  have "\<exists>r. verb_to_symptom_noun a (tok_text t) = Inr r"
    if "t \<in> set (filter (\<lambda>t. tok_pos t = ''VERB'') (tokens ?d))" for t
    using that assms [of t] verb_to_symptom_noun_total by auto
  then obtain s where "verb_symptoms a ?d (set (ner_symptoms (extract_ner ?d))) = Inr s"
    unfolding verb_symptoms_def
    using add_matches_total [of _ "\<lambda>t. verb_to_symptom_noun a (tok_text t)"] by blast
  then show ?thesis by (rule analyze_text_after_verbs)
qed

lemma analyze_text_nonempty_fields:
  assumes "analyze_text a now text = Inr r"
  shows "fr_components (failure_analysis r) \<noteq> {} \<and> fr_symptoms (failure_analysis r) \<noteq> {}"
proof -
  from assms obtain s where
    "verb_symptoms a (nlp a text) (set (ner_symptoms (extract_ner (nlp a text)))) = Inr s"
    by (auto simp: analyze_text_def Let_def split: sum.splits)
  from analyze_text_after_verbs [OF this, of now] assms show ?thesis by auto
qed

lemma analyze_blank_empty:
  "analyze_text analyzer_blank now [] =
   Inr \<lparr>ner = ner_empty,
        failure_analysis =
          \<lparr>equipment_type = s_Neizvestnoe_oborudovanie,
           fr_components = {s_Ne_ukazany},
           fr_symptoms = {s_Simptomy_ne_opisany},
           urgency = s_Srednyaya,
           timestamp = now,
           unknown_terms = []\<rparr>,
        raw_text = [],
        success = False\<rparr>"
proof -
  have d: "blank_pipeline [] = \<lparr>doc_text = [], tokens = [], ents = [], sents = []\<rparr>"
    by (simp add: blank_pipeline_def)
  let ?d = "\<lparr>doc_text = [], tokens = [], ents = [], sents = []\<rparr> :: doc"
  have u: "detect_urgency ?d = s_Srednyaya"
    by (simp add: detect_urgency_def urgency_loop_words high_urgency_words_def
        low_urgency_words_def lower_Nil)
  have ner: "extract_ner ?d = ner_empty"
    by (simp add: extract_ner_def)
  have vs: "verb_symptoms analyzer_blank ?d {} = Inr {}"
    by (simp add: verb_symptoms_def)
  have et: "determine_equipment_type analyzer_blank ?d [] = Inr s_Neizvestnoe_oborudovanie"
    by (simp add: determine_equipment_type_def)
  have gc: "get_components_from_dict analyzer_blank ?d = Inr {s_Ne_ukazany}"
    by (simp add: get_components_from_dict_def)
  have gs: "get_symptoms_from_dict analyzer_blank ?d = Inr {s_Simptomy_ne_opisany}"
    by (simp add: get_symptoms_from_dict_def)
  have ts: "get_timestamp ?d now = now"
    by (simp add: get_timestamp_def)
  have un: "find_unknown_terms ?d = []"
    by (simp add: find_unknown_terms_def)
  show ?thesis
    by (simp add: analyze_text_def blank_fields Let_def d ner ner_empty_fields vs et gc gs ts un u)
qed


section \<open>Idempotence of the normalizer\<close>

text \<open>
  Without a morphological analyzer the normalizer is lowercasing, which is
  idempotent. With one, the result is the normal form the analyzer gives, and
  whether that is a fixed point is a property of the analyzer's dictionary.
\<close>

lemma lower_cp_idem: "lower_cp (lower_cp c) = lower_cp c"
  by (simp add: lower_cp_def)

lemma lower_idem: "lower (lower w) = lower w"
  by (simp add: lower_def lower_cp_idem)

lemma normalize_word_idem_without_morph:
  "morph a = None \<Longrightarrow> normalize_word a w = Inr n \<Longrightarrow> normalize_word a n = Inr n"
proof -
  assume m: "morph a = None" and n: "normalize_word a w = Inr n"
  from m n have "n = lower w" by (auto simp: normalize_word_def truthy_def lower_def)
  moreover from m have "normalize_word a (lower w) = Inr (lower (lower w))"
    by (simp add: normalize_word_def truthy_def lower_def)
  ultimately show ?thesis by (simp add: lower_idem)
qed

end
